theory Spec2Isabelle
  imports Complex_Main
begin

section \<open>Python strings\<close>

text \<open>
  A Python \<open>str\<close> is modelled as a \<open>string\<close>, one \<open>char\<close> per code point, so the model
  covers text whose code points are below 256. On that range \<open>str.isspace\<close>, the regular
  expression class \<open>\s\<close> and the characters removed by \<open>str.strip()\<close> are the twelve code
  points listed in \<open>isspace\<close>, and \<open>str.lower\<close> maps \<open>A..Z\<close> and the accented capitals
  \<open>0xC0..0xDE\<close> (without the multiplication sign \<open>0xD7\<close>) to the code point 32 above and
  leaves every other character alone; in particular it keeps the length.
\<close>

definition isspace :: "char \<Rightarrow> bool" where
  "isspace c = (of_char c \<in> {9, 10, 11, 12, 13, 28, 29, 30, 31, 32, 133, 160 :: nat})"

definition lower_char :: "char \<Rightarrow> char" where
  "lower_char c =
     (let n = (of_char c :: nat)
      in if (65 \<le> n \<and> n \<le> 90) \<or> (192 \<le> n \<and> n \<le> 222 \<and> n \<noteq> 215)
         then char_of (n + 32) else c)"

definition lower :: "string \<Rightarrow> string" where
  "lower s = map lower_char s"

definition strip :: "string \<Rightarrow> string" where
  "strip s = rev (dropWhile isspace (rev (dropWhile isspace s)))"

text \<open>\<open>startswith s p\<close> is \<open>s.startswith(p)\<close>, \<open>endswith s p\<close> is \<open>s.endswith(p)\<close>.\<close>

fun startswith :: "string \<Rightarrow> string \<Rightarrow> bool" where
  "startswith s [] = True"
| "startswith [] (p # ps) = False"
| "startswith (c # cs) (p # ps) = (c = p \<and> startswith cs ps)"

definition endswith :: "string \<Rightarrow> string \<Rightarrow> bool" where
  "endswith s p = startswith (rev s) (rev p)"

text \<open>\<open>str_contains s sub\<close> is the Python test \<open>sub in s\<close>: \<open>sub\<close> occurs in \<open>s\<close> as a
  contiguous run.\<close>

fun str_contains :: "string \<Rightarrow> string \<Rightarrow> bool" where
  "str_contains [] sub = (sub = [])"
| "str_contains (c # cs) sub = (startswith (c # cs) sub \<or> str_contains cs sub)"

text \<open>\<open>any(w in s for w in ws)\<close>.\<close>

definition any_in :: "string list \<Rightarrow> string \<Rightarrow> bool" where
  "any_in ws s = list_ex (\<lambda>w. str_contains s w) ws"


section \<open>The full service: \<open>src/chat_moderation/main.py\<close>\<close>

subsection \<open>\<open>is_valid_rephrasing\<close>\<close>

definition refusal_patterns :: "string list" where
  "refusal_patterns =
     [''i cannot'', ''i can't'', ''sorry'', ''inappropriate'', ''unable to'',
      ''i'm unable'', ''not appropriate'', ''against policy'', ''i apologize'']"

definition is_valid_rephrasing :: "string \<Rightarrow> string \<Rightarrow> bool" where
  "is_valid_rephrasing original rephrased =
     (if length rephrased < 5 then False
      else if any_in refusal_patterns (lower rephrased) then False
      else if lower (strip original) = lower (strip rephrased) then False
      else True)"

subsection \<open>\<open>clean_rephrased_text\<close>\<close>

definition prefixes_to_remove :: "string list" where
  "prefixes_to_remove =
     [''Here's a polite version:'',
      ''Rephrased:'',
      ''Polite version:'',
      ''Here's the polite version:'',
      ''Rewritten:'',
      ''Polite:'',
      ''Here is a polite version:'',
      ''Here is the polite version:'']"

text \<open>One round of the loop over the prefixes: \<open>cleaned[len(prefix):].strip()\<close> when the
  lower-cased text starts with the lower-cased prefix.\<close>

definition remove_prefix :: "string \<Rightarrow> string \<Rightarrow> string" where
  "remove_prefix prefix cleaned =
     (if startswith (lower cleaned) (lower prefix)
      then strip (drop (length prefix) cleaned) else cleaned)"

text \<open>The slice \<open>cleaned[1:-1]\<close> is \<open>butlast (tl cleaned)\<close>, also on a text of one character.\<close>

definition clean_rephrased_text :: "string \<Rightarrow> string" where
  "clean_rephrased_text text =
     (let cleaned = strip text;
          cleaned = fold remove_prefix prefixes_to_remove cleaned
      in if (startswith cleaned [CHR 0x22] \<and> endswith cleaned [CHR 0x22]) \<or>
            (startswith cleaned [CHR 0x27] \<and> endswith cleaned [CHR 0x27])
         then strip (butlast (tl cleaned)) else cleaned)"

subsection \<open>\<open>create_generic_polite_message\<close>\<close>

definition create_generic_polite_message :: "string \<Rightarrow> string" where
  "create_generic_polite_message original_text =
     (let text_lower = lower original_text
      in if any_in [''stupid'', ''idiot'', ''dumb'', ''moron''] text_lower
           then ''I respectfully disagree with that perspective.''
         else if any_in [''hate'', ''disgusting'', ''terrible''] text_lower
           then ''I understand there may be strong feelings about this, but let's keep the discussion respectful.''
         else if any_in [''shut up'', ''quiet'', ''be silent''] text_lower
           then ''I'd prefer if we could have a constructive conversation.''
         else if any_in [''ugly'', ''gross'', ''hideous''] text_lower
           then ''I don't think that kind of comment is helpful here.''
         else if any_in [''loser'', ''failure'', ''worthless''] text_lower
           then ''Everyone has value and deserves to be treated with respect.''
         else ''I'd like to express this in a more constructive way.'')"

subsection \<open>The rewriting services and \<open>rephrase_logic\<close>\<close>

text \<open>
  The two generation services are outside the program. Each is a function from the prompt
  to the generated text, with \<open>None\<close> when anything inside the \<open>try\<close> block raises (network
  error, malformed response, a missing choice). \<open>groq_client\<close> is \<open>None\<close> when no API key is
  configured. The system prompt of the remote request is a constant and is left out.
\<close>

record services =
  groq_client :: "(string \<Rightarrow> string option) option"
  paraphrase_pipeline :: "string \<Rightarrow> string option"

definition local_paraphrase :: "services \<Rightarrow> string \<Rightarrow> string" where
  "local_paraphrase env text =
     (let prompt = ''paraphrase: '' @ text
      in case paraphrase_pipeline env prompt of
           None \<Rightarrow> create_generic_polite_message text
         | Some paraphrased \<Rightarrow>
             (let cleaned = clean_rephrased_text paraphrased
              in if is_valid_rephrasing text cleaned then cleaned
                 else create_generic_polite_message text))"

definition groq_user_prompt :: "string \<Rightarrow> string" where
  "groq_user_prompt text =
     ''Rewrite the following message to be polite and respectful while '' @
     ''keeping its meaning and context. Output only the rewritten text:'' @
     [CHR 0x0A, CHR 0x0A] @ text"

definition rephrase_with_groq :: "services \<Rightarrow> string \<Rightarrow> string option" where
  "rephrase_with_groq env text =
     (case groq_client env of
        None \<Rightarrow> None
      | Some create \<Rightarrow>
          (case create (groq_user_prompt text) of
             None \<Rightarrow> None
           | Some rephrased \<Rightarrow>
               (let cleaned = clean_rephrased_text rephrased
                in if is_valid_rephrasing text cleaned then Some cleaned else None)))"

definition rephrase_logic :: "services \<Rightarrow> string \<Rightarrow> string" where
  "rephrase_logic env text =
     (case (if groq_client env \<noteq> None then rephrase_with_groq env text else None) of
        Some groq_result \<Rightarrow> groq_result
      | None \<Rightarrow> local_paraphrase env text)"

subsection \<open>Scoring and the moderation decision\<close>

text \<open>
  \<open>tox_model.predict\<close> is the external scorer: it raises, or it returns a dictionary of
  scores. An entry of the dictionary is \<open>PyFloat x\<close> when \<open>float(...)\<close> converts it to \<open>x\<close>,
  and \<open>PyNotNumber\<close> when \<open>float(...)\<close> raises on it (\<open>None\<close>, a list, a text that is not a
  number). A Python float is modelled by the real number it denotes (a score is never
  NaN), so comparisons are exact. \<open>round(x, 3)\<close> rounds the exact value of \<open>x\<close> to three
  decimals, ties to the even neighbour; the model returns that decimal, where Python
  returns the float closest to it.
\<close>

datatype scorer_error = ScoringFailure

datatype py_value = PyFloat real | PyNotNumber

type_synonym scorer = "string \<Rightarrow> scorer_error + (string \<Rightarrow> py_value option)"

text \<open>What a handler can raise while it scores a text: the error of the scorer, or the
  error of \<open>float(...)\<close>.\<close>

datatype moderation_error = ScorerRaised scorer_error | FloatRaised

definition TOXICITY_THRESHOLD :: real where
  "TOXICITY_THRESHOLD = 0.5"

definition round_half_even :: "real \<Rightarrow> int" where
  "round_half_even x =
     (let f = \<lfloor>x\<rfloor>; d = x - of_int f
      in if d < 1 / 2 then f
         else if 1 / 2 < d then f + 1
         else if even f then f else f + 1)"

definition round3 :: "real \<Rightarrow> real" where
  "round3 x = of_int (round_half_even (x * 1000)) / 1000"

text \<open>\<open>float(toxicity_scores.get("toxicity", 0.0))\<close>.\<close>

definition get_toxicity :: "(string \<Rightarrow> py_value option) \<Rightarrow> moderation_error + real" where
  "get_toxicity toxicity_scores =
     (case toxicity_scores ''toxicity'' of
        None \<Rightarrow> Inr 0
      | Some (PyFloat v) \<Rightarrow> Inr v
      | Some PyNotNumber \<Rightarrow> Inl FloatRaised)"

text \<open>The two shapes of the dictionary that \<open>/moderate\<close> returns:
  \<open>{allowed: True, score, text}\<close> and \<open>{allowed: False, score, original, rephrased}\<close>.\<close>

datatype moderation_result =
    Accepted real string
  | Replaced real string string

fun allowed :: "moderation_result \<Rightarrow> bool" where
  "allowed (Accepted s t) = True"
| "allowed (Replaced s t r) = False"


definition moderate_text ::
    "scorer \<Rightarrow> services \<Rightarrow> string \<Rightarrow> moderation_error + moderation_result" where
  "moderate_text predict env message_text =
     (let text = strip message_text
      in case predict text of
           Inl e \<Rightarrow> Inl (ScorerRaised e)
         | Inr toxicity_scores \<Rightarrow>
             (case get_toxicity toxicity_scores of
                Inl e \<Rightarrow> Inl e
              | Inr toxicity_score \<Rightarrow>
                  if toxicity_score \<le> TOXICITY_THRESHOLD
                  then Inr (Accepted (round3 toxicity_score) text)
                  else Inr (Replaced (round3 toxicity_score) text (rephrase_logic env text))))"

text \<open>
  The two WebSocket handlers, for one received message (after \<open>json.loads\<close> and the
  \<open>.get\<close> defaults); the payload each builds is then serialised and handed to
  \<open>broadcast\<close>. The time stamp of the chat payload is left out.
\<close>

record chat_response =
  chat_username :: string
  chat_original_text :: string
  chat_toxicity :: real
  chat_allowed :: bool
  chat_display_text :: string
  chat_original_displayed :: "bool option"

definition websocket_chat_message ::
    "scorer \<Rightarrow> services \<Rightarrow> string \<Rightarrow> string \<Rightarrow> moderation_error + chat_response" where
  "websocket_chat_message predict env user text =
     (case predict text of
        Inl e \<Rightarrow> Inl (ScorerRaised e)
      | Inr toxicity_scores \<Rightarrow>
          (case get_toxicity toxicity_scores of
             Inl e \<Rightarrow> Inl e
           | Inr toxicity_score \<Rightarrow>
               if toxicity_score \<le> TOXICITY_THRESHOLD
               then Inr \<lparr>chat_username = user, chat_original_text = text,
                         chat_toxicity = round3 toxicity_score, chat_allowed = True,
                         chat_display_text = text, chat_original_displayed = None\<rparr>
               else Inr \<lparr>chat_username = user, chat_original_text = text,
                         chat_toxicity = round3 toxicity_score, chat_allowed = False,
                         chat_display_text = rephrase_logic env text,
                         chat_original_displayed = Some False\<rparr>))"

record moderator_response =
  mod_original :: string
  mod_final :: string
  mod_toxicity :: real
  moderated :: bool

definition websocket_moderator_message ::
    "scorer \<Rightarrow> services \<Rightarrow> string \<Rightarrow> moderation_error + moderator_response" where
  "websocket_moderator_message predict env text =
     (case predict text of
        Inl e \<Rightarrow> Inl (ScorerRaised e)
      | Inr toxicity_scores \<Rightarrow>
          (case get_toxicity toxicity_scores of
             Inl e \<Rightarrow> Inl e
           | Inr toxicity_score \<Rightarrow>
               (let is_moderated = (toxicity_score \<ge> TOXICITY_THRESHOLD);
                    final_text = (if is_moderated then rephrase_logic env text else text)
                in Inr \<lparr>mod_original = text, mod_final = final_text,
                         mod_toxicity = round3 toxicity_score, moderated = is_moderated\<rparr>)))"

subsection \<open>\<open>ConnectionManager\<close>\<close>

text \<open>
  The manager's only field is the list \<open>active_connections\<close>. A socket is an opaque
  value; what \<open>send_text\<close> has delivered to each socket so far is kept beside the list, in
  \<open>delivered\<close>, oldest message first. \<open>accept\<close> and \<open>send_text\<close> belong to the transport:
  \<open>connect\<close> is told whether \<open>accept\<close> returned, and \<open>broadcast\<close> is told, by \<open>fails\<close>, for
  which sockets \<open>send_text\<close> raises an \<open>Exception\<close> during this sweep. \<open>send_all\<close> and
  \<open>broadcast\<close> are one call during which no other task touches the registry; the call
  among other tasks is \<open>broadcast_among_tasks\<close> below.
\<close>

record 'ws hub =
  active_connections :: "'ws list"
  delivered :: "'ws \<Rightarrow> string list"

definition connect :: "bool \<Rightarrow> 'ws \<Rightarrow> 'ws hub \<Rightarrow> 'ws hub option" where
  "connect accepted websocket h =
     (if accepted
      then Some (h\<lparr>active_connections := active_connections h @ [websocket]\<rparr>)
      else None)"

definition disconnect :: "'ws \<Rightarrow> 'ws hub \<Rightarrow> 'ws hub" where
  "disconnect websocket h =
     (if websocket \<in> set (active_connections h)
      then h\<lparr>active_connections := remove1 websocket (active_connections h)\<rparr>
      else h)"

text \<open>The delivery sweep: the first loop of \<open>broadcast\<close>, over the connections still to
  visit, with the messages delivered so far and the list \<open>disconnected\<close>.\<close>

fun send_all ::
    "('ws \<Rightarrow> bool) \<Rightarrow> string \<Rightarrow> 'ws list \<Rightarrow> ('ws \<Rightarrow> string list) \<Rightarrow> 'ws list
       \<Rightarrow> ('ws \<Rightarrow> string list) \<times> 'ws list" where
  "send_all fails message [] dl disconnected = (dl, disconnected)"
| "send_all fails message (connection # rest) dl disconnected =
     (if fails connection
      then send_all fails message rest dl (disconnected @ [connection])
      else send_all fails message rest
             (dl(connection := dl connection @ [message])) disconnected)"

definition broadcast :: "('ws \<Rightarrow> bool) \<Rightarrow> string \<Rightarrow> 'ws hub \<Rightarrow> 'ws hub" where
  "broadcast fails message h =
     (case send_all fails message (active_connections h) (delivered h) [] of
        (dl, disconnected) \<Rightarrow> fold disconnect disconnected (h\<lparr>delivered := dl\<rparr>))"


text \<open>
  A call of \<open>broadcast\<close> among other tasks. The loop \<open>for connection in
  self.active_connections\<close> reads the live list through an index: each round tests that
  the index is below the current length, takes the element at the index and advances the
  index. Every \<open>await connection.send_text(message)\<close> lets other handler tasks run, which
  may connect and disconnect sockets of the same manager (the handlers of \<open>main.py\<close> call
  \<open>disconnect\<close> when their socket closes). \<open>others\<close> gives, for each await of the sweep in
  turn, what the other tasks do to the registry meanwhile; once it is used up no other
  task runs.
\<close>

datatype 'ws task_action = Connects 'ws | Disconnects 'ws

fun run_action :: "'ws task_action \<Rightarrow> 'ws hub \<Rightarrow> 'ws hub" where
  "run_action (Connects websocket) h =
     h\<lparr>active_connections := active_connections h @ [websocket]\<rparr>"
| "run_action (Disconnects websocket) h = disconnect websocket h"

function sweep ::
    "('ws \<Rightarrow> bool) \<Rightarrow> string \<Rightarrow> 'ws task_action list list \<Rightarrow> nat \<Rightarrow> 'ws hub \<Rightarrow> 'ws list
       \<Rightarrow> 'ws hub \<times> 'ws list" where
  "sweep fails message others index h disconnected =
     (if index < length (active_connections h)
      then
        let connection = active_connections h ! index;
            h1 = (if fails connection then h
                  else h\<lparr>delivered :=
                         (delivered h)(connection := delivered h connection @ [message])\<rparr>);
            disconnected1 =
              (if fails connection then disconnected @ [connection] else disconnected);
            h2 = fold run_action (case others of [] \<Rightarrow> [] | actions # later \<Rightarrow> actions) h1
        in sweep fails message (tl others) (index + 1) h2 disconnected1
      else (h, disconnected))"
  by pat_completeness auto
termination
  by (relation "measures
        [\<lambda>(fails, message, others, index, h, disconnected). length others,
         \<lambda>(fails, message, others, index, h, disconnected).
            length (active_connections h) - index]")
     (auto split: list.splits)

declare sweep.simps [simp del]

definition broadcast_among_tasks ::
    "('ws \<Rightarrow> bool) \<Rightarrow> string \<Rightarrow> 'ws task_action list list \<Rightarrow> 'ws hub \<Rightarrow> 'ws hub" where
  "broadcast_among_tasks fails message others h =
     (case sweep fails message others 0 h [] of
        (h', disconnected) \<Rightarrow> fold disconnect disconnected h')"


section \<open>The deployment variants: \<open>src/api/index.py\<close> and \<open>src/api/moderate.py\<close>\<close>

subsection \<open>\<open>is_valid_rephrasing\<close> of the variants\<close>

definition refusal_patterns_api :: "string list" where
  "refusal_patterns_api =
     [''i cannot'', ''i can't'', ''i'm unable'', ''i am unable'',
      ''sorry'', ''apologize'', ''inappropriate'',
      ''i don't feel comfortable'', ''i cannot assist'']"

definition is_valid_rephrasing_api :: "string \<Rightarrow> string \<Rightarrow> bool" where
  "is_valid_rephrasing_api original rephrased =
     (if rephrased = [] \<or> length rephrased < 3 then False
      else if any_in refusal_patterns_api (lower rephrased) then False
      else if lower rephrased = lower original then False
      else True)"

subsection \<open>\<open>clean_rephrased_text\<close> of the variants\<close>

text \<open>
  The three regular-expression substitutions. Without the \<open>MULTILINE\<close> flag \<open>^\<close> matches
  at the start of the text only, and \<open>$\<close> at its end and before a line feed that is its
  last character. \<open>re.sub\<close> replaces every match, so the pattern \<open>^["']|["']$\<close>
  removes a quote character at the start and, on its own, one at the end. The em dash of
  the separator class is outside the modelled range of code points.
\<close>

definition is_quote :: "char \<Rightarrow> bool" where
  "is_quote c = (c = CHR 0x22 \<or> c = CHR 0x27)"

definition sub_trailing_quote :: "string \<Rightarrow> string" where
  "sub_trailing_quote s =
     (if s \<noteq> [] \<and> is_quote (last s) then butlast s
      else if 2 \<le> length s \<and> last s = CHR 0x0A \<and> is_quote (last (butlast s))
        then butlast (butlast s) @ [CHR 0x0A]
      else s)"

definition sub_quotes :: "string \<Rightarrow> string" where
  "sub_quotes s =
     (case s of
        [] \<Rightarrow> []
      | c # cs \<Rightarrow> if is_quote c then sub_trailing_quote cs else sub_trailing_quote s)"

definition sub_trailing_emphasis :: "string \<Rightarrow> string" where
  "sub_trailing_emphasis s =
     (if endswith s ''!**'' then take (length s - 3) s
      else if endswith s (''!**'' @ [CHR 0x0A]) then take (length s - 4) s @ [CHR 0x0A]
      else s)"

definition sub_emphasis :: "string \<Rightarrow> string" where
  "sub_emphasis s =
     sub_trailing_emphasis (if startswith s ''**'' then drop 2 s else s)"

definition sub_separator :: "string \<Rightarrow> string" where
  "sub_separator s =
     (case s of
        [] \<Rightarrow> []
      | c # cs \<Rightarrow>
          if c = CHR '':'' \<or> c = CHR '';'' \<or> c = CHR ''-'' then dropWhile isspace cs else s)"

definition prefixes_to_remove_api :: "string list" where
  "prefixes_to_remove_api =
     [''Here's a polite version:'',
      ''Rewritten text:'',
      ''Polite version:'',
      ''Here is the rewritten text:'',
      ''The rewritten message is:'',
      ''POLITE VERSION:'',
      ''Rephrased:'']"

definition remove_prefix_api :: "string \<Rightarrow> string \<Rightarrow> string" where
  "remove_prefix_api prefix text =
     (if startswith (lower text) (lower prefix)
      then sub_separator (strip (drop (length prefix) text)) else text)"

definition clean_rephrased_text_api :: "string \<Rightarrow> string" where
  "clean_rephrased_text_api text0 =
     (let text = strip text0;
          text = sub_quotes text;
          text = sub_emphasis text;
          text = fold remove_prefix_api prefixes_to_remove_api text;
          text = sub_quotes text
      in strip text)"

subsection \<open>\<open>create_generic_polite_message\<close> of the variants\<close>

definition create_generic_polite_message_api :: "string \<Rightarrow> string" where
  "create_generic_polite_message_api original_text =
     (let text_lower = lower original_text
      in if any_in [''stupid'', ''dumb'', ''idiot'', ''moron''] text_lower
           then ''I don't think that's the best approach.''
         else if any_in [''hate'', ''awful'', ''terrible'', ''worst''] text_lower
           then ''I'm not comfortable with this.''
         else if any_in [''shut up'', ''shut'', ''quiet''] text_lower
           then ''I'd prefer if we could pause this conversation.''
         else if any_in [''wrong'', ''disagree'', ''no''] text_lower
           then ''I have a different perspective on this.''
         else if any_in [''ugly'', ''bad'', ''trash''] text_lower
           then ''I don't think this meets our standards.''
         else if str_contains original_text ''?''
           then ''Could you help me understand this better?''
         else ''I'd like to express this more constructively.'')"

subsection \<open>The keyword scorer and \<open>moderate\<close> of \<open>src/api/moderate.py\<close>\<close>

definition toxic_keywords :: "string list" where
  "toxic_keywords =
     [''idiot'', ''stupid'', ''dumb'', ''moron'', ''hate'', ''kill'', ''murder'',
      ''hate'', ''awful'', ''terrible'', ''worst'', ''ugly'', ''stupid'', ''dumb'', ''fuck'',
      ''shit'', ''bitch'', ''asshole'', ''dick'', ''pussy'', ''cunt'', ''nigger'', ''fag'']"

text \<open>\<open>sum(1 for word in toxic_keywords if word in text_lower)\<close>.\<close>

definition toxic_count :: "string \<Rightarrow> nat" where
  "toxic_count text = length (filter (\<lambda>word. str_contains (lower text) word) toxic_keywords)"

definition simple_toxicity_detection :: "string \<Rightarrow> real" where
  "simple_toxicity_detection text =
     (let count = toxic_count text
      in if count = 0 then 0.0
         else if count = 1 then 0.4
         else if count = 2 then 0.6
         else if count = 3 then 0.7
         else min 0.9 (0.6 + real count * 0.1))"

text \<open>\<open>rephrase_with_groq\<close> of this file returns \<open>None\<close> for every text, so the rewrite is
  the generic message.\<close>

definition rephrase_with_groq_disabled :: "string \<Rightarrow> string option" where
  "rephrase_with_groq_disabled text = None"

definition moderate :: "string \<Rightarrow> moderation_result" where
  "moderate msg_text =
     (let text = strip msg_text;
          toxicity = simple_toxicity_detection text
      in if toxicity \<le> 0.5 then Accepted (round3 toxicity) text
         else (case rephrase_with_groq_disabled text of
                 Some rephrased_text \<Rightarrow>
                   if rephrased_text \<noteq> [] then Replaced (round3 toxicity) text rephrased_text
                   else Replaced (round3 toxicity) text (create_generic_polite_message_api text)
               | None \<Rightarrow> Replaced (round3 toxicity) text (create_generic_polite_message_api text)))"

subsection \<open>The chain and \<open>moderate\<close> of \<open>src/api/index.py\<close>\<close>

text \<open>
  \<open>src/api/index.py\<close> has the same services as \<open>main.py\<close>, its own prompts, and the
  normaliser, validator and fallback message of the variants. \<open>if result:\<close> takes the
  remote result when it is neither \<open>None\<close> nor empty.
\<close>

definition local_paraphrase_index :: "services \<Rightarrow> string \<Rightarrow> string" where
  "local_paraphrase_index env text =
     (let input_text = ''rephrase politely while keeping the meaning: '' @ text
      in case paraphrase_pipeline env input_text of
           None \<Rightarrow> create_generic_polite_message_api text
         | Some generated \<Rightarrow>
             (let rephrased = clean_rephrased_text_api generated
              in if is_valid_rephrasing_api text rephrased then rephrased
                 else create_generic_polite_message_api text))"

definition groq_prompt_index :: "string \<Rightarrow> string" where
  "groq_prompt_index text =
     ''Rewrite this message to be polite and respectful while keeping the SAME meaning and context.'' @
     [CHR 0x0A, CHR 0x0A] @
     ''Rules:'' @ [CHR 0x0A] @
     ''- Keep the original intent and message'' @ [CHR 0x0A] @
     ''- Only make it polite and appropriate'' @ [CHR 0x0A] @
     ''- Keep it natural and conversational'' @ [CHR 0x0A] @
     ''- Output ONLY the rewritten text (no quotes, no explanations)'' @
     [CHR 0x0A, CHR 0x0A] @
     ''Original: '' @ [CHR 0x22] @ text @ [CHR 0x22] @
     [CHR 0x0A, CHR 0x0A] @
     ''Polite version:''"

definition rephrase_with_groq_index :: "services \<Rightarrow> string \<Rightarrow> string option" where
  "rephrase_with_groq_index env text =
     (case groq_client env of
        None \<Rightarrow> None
      | Some create \<Rightarrow>
          (case create (groq_prompt_index text) of
             None \<Rightarrow> None
           | Some content \<Rightarrow>
               (let rephrased = clean_rephrased_text_api content
                in if is_valid_rephrasing_api text rephrased then Some rephrased else None)))"

definition rephrase_logic_index :: "services \<Rightarrow> string \<Rightarrow> string" where
  "rephrase_logic_index env text =
     (case rephrase_with_groq_index env text of
        Some result \<Rightarrow> if result \<noteq> [] then result else local_paraphrase_index env text
      | None \<Rightarrow> local_paraphrase_index env text)"

definition moderate_index ::
    "scorer \<Rightarrow> services \<Rightarrow> string \<Rightarrow> moderation_error + moderation_result" where
  "moderate_index predict env msg_text =
     (let text = strip msg_text
      in case predict text of
           Inl e \<Rightarrow> Inl (ScorerRaised e)
         | Inr tox_scores \<Rightarrow>
             (case get_toxicity tox_scores of
                Inl e \<Rightarrow> Inl e
              | Inr toxicity \<Rightarrow>
                  if toxicity \<le> 0.5 then Inr (Accepted (round3 toxicity) text)
                  else Inr (Replaced (round3 toxicity) text (rephrase_logic_index env text))))"


section \<open>Properties\<close>

subsection \<open>The validator\<close>

text \<open>
  Claim C6. For every non-empty string \<open>x\<close> the validator rejects \<open>x\<close> as a rewrite of
  itself, in \<open>main.py\<close> and in the variants under \<open>src/api\<close>: the last check compares the
  lower-cased candidate with the lower-cased original (after trimming both, in \<open>main.py\<close>),
  so a candidate that differs from the original only in case is rejected as well.
\<close>

theorem is_valid_rephrasing_rejects_identity:
  "(x \<noteq> [] \<longrightarrow> \<not> is_valid_rephrasing x x \<and> \<not> is_valid_rephrasing_api x x) \<and>
   (lower (strip original) = lower (strip rephrased) \<longrightarrow>
      \<not> is_valid_rephrasing original rephrased) \<and>
   (lower rephrased = lower original \<longrightarrow> \<not> is_valid_rephrasing_api original rephrased)"
  by (simp add: is_valid_rephrasing_def is_valid_rephrasing_api_def)

theorem is_valid_rephrasing_rejects_identity_witness:
  "''You are so stupid'' \<noteq> [] \<and>
   \<not> is_valid_rephrasing ''You are so stupid'' ''You are so stupid'' \<and>
   \<not> is_valid_rephrasing_api ''You are so stupid'' ''You are so stupid'' \<and>
   lower ''YOU ARE SO STUPID'' = lower ''You are so stupid'' \<and>
   \<not> is_valid_rephrasing ''You are so stupid'' ''YOU ARE SO STUPID'' \<and>
   \<not> is_valid_rephrasing_api ''You are so stupid'' ''YOU ARE SO STUPID''"
proof -
  have h: "lower ''YOU ARE SO STUPID'' = lower ''You are so stupid''"
    "lower (strip ''You are so stupid'') = lower (strip ''YOU ARE SO STUPID'')"
    by code_simp+
  from h
    is_valid_rephrasing_rejects_identity [of "''You are so stupid''" "''You are so stupid''"
      "''YOU ARE SO STUPID''"]
  show ?thesis by simp
qed

text \<open>
  Claim C7. The minimum length is not 5 in every copy of the validator: \<open>main.py\<close> rejects
  a candidate shorter than 5 characters, the variants under \<open>src/api\<close> test \<open>len < 3\<close>
  and accept the four-character candidate \<open>Okay\<close>.
\<close>

theorem is_valid_rephrasing_api_accepts_short:
  "length ''Okay'' < 5 \<and> is_valid_rephrasing_api ''You are dumb'' ''Okay''"
  by code_simp

text \<open>
  Claim C7, amended. For every original, \<open>main.py\<close> rejects every candidate shorter than 5
  characters, and \<open>src/api/index.py\<close> and \<open>src/api/moderate.py\<close> reject every candidate
  shorter than 3 characters.
\<close>

theorem is_valid_rephrasing_min_length:
  "(length rephrased < 5 \<longrightarrow> \<not> is_valid_rephrasing original rephrased) \<and>
   (length rephrased < 3 \<longrightarrow> \<not> is_valid_rephrasing_api original rephrased)"
  by (simp add: is_valid_rephrasing_def is_valid_rephrasing_api_def)

theorem is_valid_rephrasing_min_length_witness:
  "length ''ok'' < 3 \<and> \<not> is_valid_rephrasing ''You are dumb'' ''ok'' \<and>
   \<not> is_valid_rephrasing_api ''You are dumb'' ''ok''"
  using is_valid_rephrasing_min_length [of "''ok''" "''You are dumb''"] by simp

subsection \<open>The keyword scorer\<close>

lemma count_list_le_filter: "P w \<Longrightarrow> count_list xs w \<le> length (filter P xs)"
  by (induction xs) auto

lemma count_doubled:
  "count_list toxic_keywords ''stupid'' = 2"
  "count_list toxic_keywords ''dumb'' = 2"
  "count_list toxic_keywords ''hate'' = 2"
  by code_simp+

lemma any_in3D:
  "any_in [a, b, c] s \<Longrightarrow> str_contains s a \<or> str_contains s b \<or> str_contains s c"
  by (simp add: any_in_def)

lemma doubled_keyword_count:
  assumes "any_in [''stupid'', ''dumb'', ''hate''] (lower t)"
  shows "2 \<le> toxic_count t"
proof -
  from any_in3D [OF assms] obtain w
    where w: "count_list toxic_keywords w = 2" "str_contains (lower t) w"
    using count_doubled by blast
  have "count_list toxic_keywords w \<le> toxic_count t"
    unfolding toxic_count_def using w(2) by (rule count_list_le_filter)
  with w(1) show ?thesis by simp
qed

lemma min_high: "4 \<le> (n::nat) \<Longrightarrow> min 0.9 (0.6 + real n * 0.1) = (0.9::real)"
proof -
  assume "4 \<le> n"
  then have "4 \<le> real n" by simp
  then have "(0.9::real) \<le> 0.6 + real n * 0.1" by simp
  then show ?thesis by (simp only: min_def if_True)
qed

lemma simple_toxicity_detection_cases:
  "simple_toxicity_detection t =
     (if toxic_count t = 0 then 0 else if toxic_count t = 1 then 0.4
      else if toxic_count t = 2 then 0.6 else if toxic_count t = 3 then 0.7 else 0.9)"
proof (cases "4 \<le> toxic_count t")
  case True
  then show ?thesis
    unfolding simple_toxicity_detection_def Let_def by (simp only: min_high) simp
next
  case False
  then show ?thesis
    unfolding simple_toxicity_detection_def Let_def by auto
qed

lemma simple_toxicity_detection_range:
  "simple_toxicity_detection t \<in> {0, 0.4, 0.6, 0.7, 0.9}"
  unfolding simple_toxicity_detection_cases by simp

lemma simple_toxicity_detection_high:
  "2 \<le> toxic_count t \<Longrightarrow> 0.6 \<le> simple_toxicity_detection t"
  unfolding simple_toxicity_detection_cases by simp

lemma moderate_allowed: "allowed (moderate t) = (simple_toxicity_detection (strip t) \<le> 0.5)"
  by (simp add: moderate_def Let_def rephrase_with_groq_disabled_def)

lemma keyword_examples:
  "toxic_count ''stupid'' = 2" "toxic_count ''dumb'' = 2" "toxic_count ''hate'' = 2"
  "toxic_count ''idiot'' = 1"
  "length (remdups (filter (\<lambda>word. str_contains (lower ''stupid'') word) toxic_keywords)) = 1"
  "simple_toxicity_detection ''stupid'' = 0.6" "simple_toxicity_detection ''dumb'' = 0.6"
  "simple_toxicity_detection ''hate'' = 0.6" "simple_toxicity_detection ''idiot'' = 0.4"
  "\<not> allowed (moderate ''stupid'')" "\<not> allowed (moderate ''dumb'')"
  "\<not> allowed (moderate ''hate'')" "allowed (moderate ''idiot'')"
  by code_simp+

lemma keyword_examples_upper:
  "toxic_count ''You are STUPID'' = 2" "simple_toxicity_detection ''You are STUPID'' = 0.6"
  "\<not> allowed (moderate ''You are STUPID'')"
  "toxic_count ''What an Idiot'' = 1" "simple_toxicity_detection ''What an Idiot'' = 0.4"
  "allowed (moderate ''What an Idiot'')"
  "count_list toxic_keywords ''idiot'' = 1"
  by code_simp+

lemma filter_only:
  "\<forall>x \<in> set xs. P x \<longleftrightarrow> x = w \<Longrightarrow> length (filter P xs) = count_list xs w"
  by (induction xs) auto

lemma toxic_count_only:
  assumes "\<forall>w' \<in> set toxic_keywords. str_contains (lower t) w' \<longleftrightarrow> w' = w"
  shows "toxic_count t = count_list toxic_keywords w"
  unfolding toxic_count_def using assms by (rule filter_only)

lemma toxic_count_case_insensitive:
  "lower t = lower u \<Longrightarrow> toxic_count t = toxic_count u"
  by (simp add: toxic_count_def)

text \<open>
  Claim C9. In \<open>src/api/moderate.py\<close> the count runs over the entries of the keyword
  list, duplicates included, and looks for them in the lower-cased text, so that two texts
  that differ only in case count and score the same. The score is one of 0.0, 0.4, 0.6,
  0.7, 0.9 and so never above 0.9. A text that contains \<open>stupid\<close>, \<open>dumb\<close> or \<open>hate\<close>, each
  listed twice, counts at least 2, scores at least 0.6 and is blocked by \<open>moderate\<close>. A
  text in which exactly one keyword occurs counts as many as that keyword has entries: 2
  and the score 0.6 for \<open>stupid\<close>, \<open>dumb\<close> and \<open>hate\<close>, 1 and the score 0.4 for a keyword
  listed once, such as \<open>idiot\<close>. The texts \<open>stupid\<close>, \<open>dumb\<close>, \<open>hate\<close> and \<open>You are STUPID\<close>
  match one distinct keyword, count 2, score 0.6 and are blocked; \<open>idiot\<close> and
  \<open>What an Idiot\<close> count 1, score 0.4 and are allowed.
\<close>

theorem simple_toxicity_detection_counts_entries:
  "simple_toxicity_detection t \<in> {0, 0.4, 0.6, 0.7, 0.9} \<and>
   simple_toxicity_detection t \<le> 0.9 \<and>
   (any_in [''stupid'', ''dumb'', ''hate''] (lower t) \<longrightarrow>
      2 \<le> toxic_count t \<and> 0.6 \<le> simple_toxicity_detection t) \<and>
   (any_in [''stupid'', ''dumb'', ''hate''] (lower (strip t)) \<longrightarrow> \<not> allowed (moderate t)) \<and>
   toxic_count ''stupid'' = 2 \<and> toxic_count ''dumb'' = 2 \<and> toxic_count ''hate'' = 2 \<and>
   length (remdups (filter (\<lambda>word. str_contains (lower ''stupid'') word) toxic_keywords)) = 1 \<and>
   simple_toxicity_detection ''stupid'' = 0.6 \<and> simple_toxicity_detection ''dumb'' = 0.6 \<and>
   simple_toxicity_detection ''hate'' = 0.6 \<and>
   \<not> allowed (moderate ''stupid'') \<and> \<not> allowed (moderate ''dumb'') \<and>
   \<not> allowed (moderate ''hate'') \<and>
   toxic_count ''idiot'' = 1 \<and> simple_toxicity_detection ''idiot'' = 0.4 \<and>
   allowed (moderate ''idiot'') \<and>
   (lower t = lower u \<longrightarrow>
      toxic_count t = toxic_count u \<and>
      simple_toxicity_detection t = simple_toxicity_detection u) \<and>
   ((\<forall>w' \<in> set toxic_keywords. str_contains (lower t) w' \<longleftrightarrow> w' = w) \<longrightarrow>
      toxic_count t = count_list toxic_keywords w \<and>
      (count_list toxic_keywords w = 2 \<longrightarrow> simple_toxicity_detection t = 0.6) \<and>
      (count_list toxic_keywords w = 1 \<longrightarrow> simple_toxicity_detection t = 0.4)) \<and>
   count_list toxic_keywords ''stupid'' = 2 \<and> count_list toxic_keywords ''dumb'' = 2 \<and>
   count_list toxic_keywords ''hate'' = 2 \<and> count_list toxic_keywords ''idiot'' = 1 \<and>
   toxic_count ''You are STUPID'' = 2 \<and> simple_toxicity_detection ''You are STUPID'' = 0.6 \<and>
   \<not> allowed (moderate ''You are STUPID'') \<and>
   toxic_count ''What an Idiot'' = 1 \<and> simple_toxicity_detection ''What an Idiot'' = 0.4 \<and>
   allowed (moderate ''What an Idiot'')"
proof -
  have range: "simple_toxicity_detection t \<in> {0, 0.4, 0.6, 0.7, 0.9}"
    by (rule simple_toxicity_detection_range)
  then have le: "simple_toxicity_detection t \<le> 0.9" by auto
  have dbl: "any_in [''stupid'', ''dumb'', ''hate''] (lower t) \<longrightarrow>
      2 \<le> toxic_count t \<and> 0.6 \<le> simple_toxicity_detection t"
    using doubled_keyword_count simple_toxicity_detection_high by blast
  have blocked: "any_in [''stupid'', ''dumb'', ''hate''] (lower (strip t)) \<longrightarrow>
      \<not> allowed (moderate t)"
  proof
    assume "any_in [''stupid'', ''dumb'', ''hate''] (lower (strip t))"
    then have "0.6 \<le> simple_toxicity_detection (strip t)"
      using doubled_keyword_count simple_toxicity_detection_high by blast
    then show "\<not> allowed (moderate t)" by (simp add: moderate_allowed)
  qed
  have ci: "lower t = lower u \<longrightarrow>
      toxic_count t = toxic_count u \<and>
      simple_toxicity_detection t = simple_toxicity_detection u"
    using toxic_count_case_insensitive [of t u]
    by (simp add: simple_toxicity_detection_cases)
  have only: "(\<forall>w' \<in> set toxic_keywords. str_contains (lower t) w' \<longleftrightarrow> w' = w) \<longrightarrow>
      toxic_count t = count_list toxic_keywords w \<and>
      (count_list toxic_keywords w = 2 \<longrightarrow> simple_toxicity_detection t = 0.6) \<and>
      (count_list toxic_keywords w = 1 \<longrightarrow> simple_toxicity_detection t = 0.4)"
    using toxic_count_only [of t w]
    by (simp add: simple_toxicity_detection_cases)
  from range le dbl blocked ci only show ?thesis
    by (simp only: keyword_examples keyword_examples_upper count_doubled simp_thms)
qed

theorem simple_toxicity_detection_counts_entries_witness:
  "any_in [''stupid'', ''dumb'', ''hate''] (lower ''I HATE Mondays'') \<and>
   2 \<le> toxic_count ''I HATE Mondays'' \<and>
   0.6 \<le> simple_toxicity_detection ''I HATE Mondays'' \<and>
   \<not> allowed (moderate ''I HATE Mondays'') \<and>
   toxic_count ''You MORON'' = toxic_count ''you moron'' \<and>
   toxic_count ''You MORON'' = 1 \<and>
   simple_toxicity_detection ''You MORON'' = 0.4"
proof -
  have h: "any_in [''stupid'', ''dumb'', ''hate''] (lower ''I HATE Mondays'')"
    by code_simp
  have s: "strip ''I HATE Mondays'' = ''I HATE Mondays''"
    by code_simp
  have l: "lower ''You MORON'' = lower ''you moron''"
    by code_simp
  have o: "\<forall>w' \<in> set toxic_keywords. str_contains (lower ''You MORON'') w' \<longleftrightarrow> w' = ''moron''"
    by code_simp
  have c: "count_list toxic_keywords ''moron'' = 1"
    by code_simp
  note first = simple_toxicity_detection_counts_entries [of "''I HATE Mondays''"]
  note second =
    simple_toxicity_detection_counts_entries [of "''You MORON''" "''you moron''" "''moron''"]
  from first h have a: "2 \<le> toxic_count ''I HATE Mondays'' \<and>
      0.6 \<le> simple_toxicity_detection ''I HATE Mondays''"
    by blast
  from first h s have b: "\<not> allowed (moderate ''I HATE Mondays'')"
    by (simp only:) blast?
  from second l have d: "toxic_count ''You MORON'' = toxic_count ''you moron''"
    by blast
  from second o c have e: "toxic_count ''You MORON'' = 1 \<and>
      simple_toxicity_detection ''You MORON'' = 0.4"
    by (simp only:) blast?
  from h a b d e show ?thesis by blast
qed

subsection \<open>The fallback message\<close>

text \<open>
  Claim C5. \<open>create_generic_polite_message\<close> of \<open>main.py\<close> has no rule for a question
  mark: on \<open>Can you explain?\<close>, which matches none of its keywords, it returns its generic
  message, the same as without the question mark.
\<close>

theorem create_generic_polite_message_ignores_question:
  "str_contains ''Can you explain?'' ''?'' \<and>
   create_generic_polite_message ''Can you explain?'' =
     ''I'd like to express this in a more constructive way.'' \<and>
   create_generic_polite_message ''Can you explain?'' =
     create_generic_polite_message ''Can you explain''"
  by code_simp

lemma fallback_examples:
  "create_generic_polite_message ''You are so stupid'' =
     ''I respectfully disagree with that perspective.''"
  "create_generic_polite_message_api ''You are so stupid'' =
     ''I don't think that's the best approach.''"
  "create_generic_polite_message ''I hate this stupid thing'' =
     ''I respectfully disagree with that perspective.''"
  "create_generic_polite_message_api ''I hate this stupid thing'' =
     ''I don't think that's the best approach.''"
  "create_generic_polite_message_api ''Can you explain?'' =
     ''Could you help me understand this better?''"
  by code_simp+

lemma fallback_examples_later:
  "create_generic_polite_message_api ''I hate it!'' =
     ''I'm not comfortable with this.''"
  "create_generic_polite_message ''I hate it!'' =
     ''I understand there may be strong feelings about this, but let's keep the discussion respectful.''"
  "create_generic_polite_message_api ''shut up, you are wrong'' =
     ''I'd prefer if we could pause this conversation.''"
  "create_generic_polite_message ''That ugly loser'' =
     ''I don't think that kind of comment is helpful here.''"
  by code_simp+

text \<open>
  Claim C5, amended. In \<open>main.py\<close> and in the variants under \<open>src/api\<close> the selector
  returns a non-empty message for every text, and tests its keyword categories in a fixed
  order, the first match deciding: a category gives its message exactly when none of the
  categories before it matches (so \<open>You are so stupid\<close>, and also
  \<open>I hate this stupid thing\<close>, get the insult message; \<open>I hate it!\<close> gets the second
  message; \<open>shut up, you are wrong\<close> gets the third message of the variants, not the
  fourth). In the variants a text that contains no keyword of any category gets the
  clarification request when it contains a question mark (so \<open>Can you explain?\<close>) and the
  generic message otherwise. \<open>main.py\<close> has no question-mark rule: a text that contains
  none of its keywords gets its generic message.
\<close>

theorem create_generic_polite_message_priority:
  "create_generic_polite_message t \<noteq> [] \<and>
   create_generic_polite_message_api t \<noteq> [] \<and>
   (any_in [''stupid'', ''idiot'', ''dumb'', ''moron''] (lower t) \<longrightarrow>
      create_generic_polite_message t = ''I respectfully disagree with that perspective.'' \<and>
      create_generic_polite_message_api t = ''I don't think that's the best approach.'') \<and>
   (\<not> any_in [''stupid'', ''dumb'', ''idiot'', ''moron'', ''hate'', ''awful'', ''terrible'',
              ''worst'', ''shut up'', ''shut'', ''quiet'', ''wrong'', ''disagree'', ''no'',
              ''ugly'', ''bad'', ''trash''] (lower t) \<longrightarrow>
      create_generic_polite_message_api t =
        (if str_contains t ''?'' then ''Could you help me understand this better?''
         else ''I'd like to express this more constructively.'')) \<and>
   (\<not> any_in [''stupid'', ''idiot'', ''dumb'', ''moron'', ''hate'', ''disgusting'',
              ''terrible'', ''shut up'', ''quiet'', ''be silent'', ''ugly'', ''gross'',
              ''hideous'', ''loser'', ''failure'', ''worthless''] (lower t) \<longrightarrow>
      create_generic_polite_message t =
        ''I'd like to express this in a more constructive way.'') \<and>
   create_generic_polite_message ''You are so stupid'' =
     ''I respectfully disagree with that perspective.'' \<and>
   create_generic_polite_message_api ''You are so stupid'' =
     ''I don't think that's the best approach.'' \<and>
   create_generic_polite_message ''I hate this stupid thing'' =
     ''I respectfully disagree with that perspective.'' \<and>
   create_generic_polite_message_api ''I hate this stupid thing'' =
     ''I don't think that's the best approach.'' \<and>
   create_generic_polite_message_api ''Can you explain?'' =
     ''Could you help me understand this better?'' \<and>
   (\<not> any_in [''stupid'', ''dumb'', ''idiot'', ''moron''] (lower t) \<and>
    any_in [''hate'', ''awful'', ''terrible'', ''worst''] (lower t) \<longrightarrow>
      create_generic_polite_message_api t = ''I'm not comfortable with this.'') \<and>
   (\<not> any_in [''stupid'', ''dumb'', ''idiot'', ''moron''] (lower t) \<and>
    \<not> any_in [''hate'', ''awful'', ''terrible'', ''worst''] (lower t) \<and>
    any_in [''shut up'', ''shut'', ''quiet''] (lower t) \<longrightarrow>
      create_generic_polite_message_api t = ''I'd prefer if we could pause this conversation.'') \<and>
   (\<not> any_in [''stupid'', ''dumb'', ''idiot'', ''moron''] (lower t) \<and>
    \<not> any_in [''hate'', ''awful'', ''terrible'', ''worst''] (lower t) \<and>
    \<not> any_in [''shut up'', ''shut'', ''quiet''] (lower t) \<and>
    any_in [''wrong'', ''disagree'', ''no''] (lower t) \<longrightarrow>
      create_generic_polite_message_api t = ''I have a different perspective on this.'') \<and>
   (\<not> any_in [''stupid'', ''dumb'', ''idiot'', ''moron''] (lower t) \<and>
    \<not> any_in [''hate'', ''awful'', ''terrible'', ''worst''] (lower t) \<and>
    \<not> any_in [''shut up'', ''shut'', ''quiet''] (lower t) \<and>
    \<not> any_in [''wrong'', ''disagree'', ''no''] (lower t) \<and>
    any_in [''ugly'', ''bad'', ''trash''] (lower t) \<longrightarrow>
      create_generic_polite_message_api t = ''I don't think this meets our standards.'') \<and>
   (\<not> any_in [''stupid'', ''idiot'', ''dumb'', ''moron''] (lower t) \<and>
    any_in [''hate'', ''disgusting'', ''terrible''] (lower t) \<longrightarrow>
      create_generic_polite_message t = ''I understand there may be strong feelings about this, but let's keep the discussion respectful.'') \<and>
   (\<not> any_in [''stupid'', ''idiot'', ''dumb'', ''moron''] (lower t) \<and>
    \<not> any_in [''hate'', ''disgusting'', ''terrible''] (lower t) \<and>
    any_in [''shut up'', ''quiet'', ''be silent''] (lower t) \<longrightarrow>
      create_generic_polite_message t = ''I'd prefer if we could have a constructive conversation.'') \<and>
   (\<not> any_in [''stupid'', ''idiot'', ''dumb'', ''moron''] (lower t) \<and>
    \<not> any_in [''hate'', ''disgusting'', ''terrible''] (lower t) \<and>
    \<not> any_in [''shut up'', ''quiet'', ''be silent''] (lower t) \<and>
    any_in [''ugly'', ''gross'', ''hideous''] (lower t) \<longrightarrow>
      create_generic_polite_message t = ''I don't think that kind of comment is helpful here.'') \<and>
   (\<not> any_in [''stupid'', ''idiot'', ''dumb'', ''moron''] (lower t) \<and>
    \<not> any_in [''hate'', ''disgusting'', ''terrible''] (lower t) \<and>
    \<not> any_in [''shut up'', ''quiet'', ''be silent''] (lower t) \<and>
    \<not> any_in [''ugly'', ''gross'', ''hideous''] (lower t) \<and>
    any_in [''loser'', ''failure'', ''worthless''] (lower t) \<longrightarrow>
      create_generic_polite_message t = ''Everyone has value and deserves to be treated with respect.'') \<and>
   create_generic_polite_message_api ''I hate it!'' =
     ''I'm not comfortable with this.'' \<and>
   create_generic_polite_message ''I hate it!'' =
     ''I understand there may be strong feelings about this, but let's keep the discussion respectful.'' \<and>
   create_generic_polite_message_api ''shut up, you are wrong'' =
     ''I'd prefer if we could pause this conversation.'' \<and>
   create_generic_polite_message ''That ugly loser'' =
     ''I don't think that kind of comment is helpful here.''"
proof -
  have ne: "create_generic_polite_message t \<noteq> []"
    by (simp add: create_generic_polite_message_def Let_def)
  have ne_api: "create_generic_polite_message_api t \<noteq> []"
    by (simp add: create_generic_polite_message_api_def Let_def)
  have first: "any_in [''stupid'', ''idiot'', ''dumb'', ''moron''] (lower t) \<longrightarrow>
      create_generic_polite_message t = ''I respectfully disagree with that perspective.'' \<and>
      create_generic_polite_message_api t = ''I don't think that's the best approach.''"
  proof
    assume a: "any_in [''stupid'', ''idiot'', ''dumb'', ''moron''] (lower t)"
    then have b: "any_in [''stupid'', ''dumb'', ''idiot'', ''moron''] (lower t)"
      by (auto simp: any_in_def)
    from a have "create_generic_polite_message t =
        ''I respectfully disagree with that perspective.''"
      by (simp only: create_generic_polite_message_def Let_def if_True)
    moreover from b have "create_generic_polite_message_api t =
        ''I don't think that's the best approach.''"
      by (simp only: create_generic_polite_message_api_def Let_def if_True)
    ultimately show "create_generic_polite_message t =
        ''I respectfully disagree with that perspective.'' \<and>
      create_generic_polite_message_api t = ''I don't think that's the best approach.''"
      by (rule conjI)
  qed
  have none_api: "\<not> any_in [''stupid'', ''dumb'', ''idiot'', ''moron'', ''hate'', ''awful'',
              ''terrible'', ''worst'', ''shut up'', ''shut'', ''quiet'', ''wrong'',
              ''disagree'', ''no'', ''ugly'', ''bad'', ''trash''] (lower t) \<longrightarrow>
      create_generic_polite_message_api t =
        (if str_contains t ''?'' then ''Could you help me understand this better?''
         else ''I'd like to express this more constructively.'')"
    by (simp add: create_generic_polite_message_api_def Let_def any_in_def)
  have none_main: "\<not> any_in [''stupid'', ''idiot'', ''dumb'', ''moron'', ''hate'',
              ''disgusting'', ''terrible'', ''shut up'', ''quiet'', ''be silent'', ''ugly'',
              ''gross'', ''hideous'', ''loser'', ''failure'', ''worthless''] (lower t) \<longrightarrow>
      create_generic_polite_message t =
        ''I'd like to express this in a more constructive way.''"
    by (simp add: create_generic_polite_message_def Let_def any_in_def)
  have later0: "(\<not> any_in [''stupid'', ''dumb'', ''idiot'', ''moron''] (lower t) \<and>
    any_in [''hate'', ''awful'', ''terrible'', ''worst''] (lower t) \<longrightarrow>
      create_generic_polite_message_api t = ''I'm not comfortable with this.'')"
    by (simp add: create_generic_polite_message_api_def Let_def)
  have later1: "(\<not> any_in [''stupid'', ''dumb'', ''idiot'', ''moron''] (lower t) \<and>
    \<not> any_in [''hate'', ''awful'', ''terrible'', ''worst''] (lower t) \<and>
    any_in [''shut up'', ''shut'', ''quiet''] (lower t) \<longrightarrow>
      create_generic_polite_message_api t = ''I'd prefer if we could pause this conversation.'')"
    by (simp add: create_generic_polite_message_api_def Let_def)
  have later2: "(\<not> any_in [''stupid'', ''dumb'', ''idiot'', ''moron''] (lower t) \<and>
    \<not> any_in [''hate'', ''awful'', ''terrible'', ''worst''] (lower t) \<and>
    \<not> any_in [''shut up'', ''shut'', ''quiet''] (lower t) \<and>
    any_in [''wrong'', ''disagree'', ''no''] (lower t) \<longrightarrow>
      create_generic_polite_message_api t = ''I have a different perspective on this.'')"
    by (simp add: create_generic_polite_message_api_def Let_def)
  have later3: "(\<not> any_in [''stupid'', ''dumb'', ''idiot'', ''moron''] (lower t) \<and>
    \<not> any_in [''hate'', ''awful'', ''terrible'', ''worst''] (lower t) \<and>
    \<not> any_in [''shut up'', ''shut'', ''quiet''] (lower t) \<and>
    \<not> any_in [''wrong'', ''disagree'', ''no''] (lower t) \<and>
    any_in [''ugly'', ''bad'', ''trash''] (lower t) \<longrightarrow>
      create_generic_polite_message_api t = ''I don't think this meets our standards.'')"
    by (simp add: create_generic_polite_message_api_def Let_def)
  have later4: "(\<not> any_in [''stupid'', ''idiot'', ''dumb'', ''moron''] (lower t) \<and>
    any_in [''hate'', ''disgusting'', ''terrible''] (lower t) \<longrightarrow>
      create_generic_polite_message t = ''I understand there may be strong feelings about this, but let's keep the discussion respectful.'')"
    by (simp add: create_generic_polite_message_def Let_def)
  have later5: "(\<not> any_in [''stupid'', ''idiot'', ''dumb'', ''moron''] (lower t) \<and>
    \<not> any_in [''hate'', ''disgusting'', ''terrible''] (lower t) \<and>
    any_in [''shut up'', ''quiet'', ''be silent''] (lower t) \<longrightarrow>
      create_generic_polite_message t = ''I'd prefer if we could have a constructive conversation.'')"
    by (simp add: create_generic_polite_message_def Let_def)
  have later6: "(\<not> any_in [''stupid'', ''idiot'', ''dumb'', ''moron''] (lower t) \<and>
    \<not> any_in [''hate'', ''disgusting'', ''terrible''] (lower t) \<and>
    \<not> any_in [''shut up'', ''quiet'', ''be silent''] (lower t) \<and>
    any_in [''ugly'', ''gross'', ''hideous''] (lower t) \<longrightarrow>
      create_generic_polite_message t = ''I don't think that kind of comment is helpful here.'')"
    by (simp add: create_generic_polite_message_def Let_def)
  have later7: "(\<not> any_in [''stupid'', ''idiot'', ''dumb'', ''moron''] (lower t) \<and>
    \<not> any_in [''hate'', ''disgusting'', ''terrible''] (lower t) \<and>
    \<not> any_in [''shut up'', ''quiet'', ''be silent''] (lower t) \<and>
    \<not> any_in [''ugly'', ''gross'', ''hideous''] (lower t) \<and>
    any_in [''loser'', ''failure'', ''worthless''] (lower t) \<longrightarrow>
      create_generic_polite_message t = ''Everyone has value and deserves to be treated with respect.'')"
    by (simp add: create_generic_polite_message_def Let_def)
  from ne ne_api first none_api none_main later0 later1 later2 later3 later4 later5 later6 later7 show ?thesis
    by (simp only: fallback_examples fallback_examples_later simp_thms)
qed

theorem create_generic_polite_message_priority_witness:
  "any_in [''stupid'', ''idiot'', ''dumb'', ''moron''] (lower ''What an IDIOT'') \<and>
   create_generic_polite_message ''What an IDIOT'' =
     ''I respectfully disagree with that perspective.'' \<and>
   create_generic_polite_message_api ''What an IDIOT'' =
     ''I don't think that's the best approach.'' \<and>
   create_generic_polite_message_api ''Why is that?'' =
     ''Could you help me understand this better?'' \<and>
   create_generic_polite_message ''Why is that?'' =
     ''I'd like to express this in a more constructive way.'' \<and>
   create_generic_polite_message_api ''I hate it!'' =
     ''I'm not comfortable with this.'' \<and>
   create_generic_polite_message_api ''Please be quiet'' =
     ''I'd prefer if we could pause this conversation.'' \<and>
   create_generic_polite_message_api ''You are wrong'' =
     ''I have a different perspective on this.'' \<and>
   create_generic_polite_message_api ''That is trash'' =
     ''I don't think this meets our standards.'' \<and>
   create_generic_polite_message ''I hate it!'' =
     ''I understand there may be strong feelings about this, but let's keep the discussion respectful.'' \<and>
   create_generic_polite_message ''Please be quiet'' =
     ''I'd prefer if we could have a constructive conversation.'' \<and>
   create_generic_polite_message ''That is gross'' =
     ''I don't think that kind of comment is helpful here.'' \<and>
   create_generic_polite_message ''What a failure'' =
     ''Everyone has value and deserves to be treated with respect.''"
proof -
  have h1: "any_in [''stupid'', ''idiot'', ''dumb'', ''moron''] (lower ''What an IDIOT'')"
    by code_simp
  have h2: "\<not> any_in [''stupid'', ''dumb'', ''idiot'', ''moron'', ''hate'', ''awful'',
              ''terrible'', ''worst'', ''shut up'', ''shut'', ''quiet'', ''wrong'',
              ''disagree'', ''no'', ''ugly'', ''bad'', ''trash''] (lower ''Why is that?'')"
    by code_simp
  have h3: "\<not> any_in [''stupid'', ''idiot'', ''dumb'', ''moron'', ''hate'',
              ''disgusting'', ''terrible'', ''shut up'', ''quiet'', ''be silent'', ''ugly'',
              ''gross'', ''hideous'', ''loser'', ''failure'', ''worthless'']
              (lower ''Why is that?'')"
    by code_simp
  have h4: "str_contains ''Why is that?'' ''?''"
    by code_simp
  from h1 h2 h3 h4
    create_generic_polite_message_priority [of "''What an IDIOT''"]
    create_generic_polite_message_priority [of "''Why is that?''"]
  have q0: "any_in [''stupid'', ''idiot'', ''dumb'', ''moron''] (lower ''What an IDIOT'') \<and>
     create_generic_polite_message ''What an IDIOT'' =
       ''I respectfully disagree with that perspective.'' \<and>
     create_generic_polite_message_api ''What an IDIOT'' =
       ''I don't think that's the best approach.'' \<and>
     create_generic_polite_message_api ''Why is that?'' =
       ''Could you help me understand this better?'' \<and>
     create_generic_polite_message ''Why is that?'' =
       ''I'd like to express this in a more constructive way.''"
    by (simp only: simp_thms if_True)
  have p1: "\<not> any_in [''stupid'', ''dumb'', ''idiot'', ''moron''] (lower ''I hate it!'') \<and>
    any_in [''hate'', ''awful'', ''terrible'', ''worst''] (lower ''I hate it!'')"
    by code_simp
  have q1: "create_generic_polite_message_api ''I hate it!'' =
     ''I'm not comfortable with this.''"
    by (rule mp [OF create_generic_polite_message_priority
      [of "''I hate it!''", THEN conjunct2, THEN conjunct2, THEN conjunct2, THEN conjunct2, THEN conjunct2, THEN conjunct2, THEN conjunct2, THEN conjunct2, THEN conjunct2, THEN conjunct2, THEN conjunct1] p1])
  have p2: "\<not> any_in [''stupid'', ''dumb'', ''idiot'', ''moron''] (lower ''Please be quiet'') \<and>
    \<not> any_in [''hate'', ''awful'', ''terrible'', ''worst''] (lower ''Please be quiet'') \<and>
    any_in [''shut up'', ''shut'', ''quiet''] (lower ''Please be quiet'')"
    by code_simp
  have q2: "create_generic_polite_message_api ''Please be quiet'' =
     ''I'd prefer if we could pause this conversation.''"
    by (rule mp [OF create_generic_polite_message_priority
      [of "''Please be quiet''", THEN conjunct2, THEN conjunct2, THEN conjunct2, THEN conjunct2, THEN conjunct2, THEN conjunct2, THEN conjunct2, THEN conjunct2, THEN conjunct2, THEN conjunct2, THEN conjunct2, THEN conjunct1] p2])
  have p3: "\<not> any_in [''stupid'', ''dumb'', ''idiot'', ''moron''] (lower ''You are wrong'') \<and>
    \<not> any_in [''hate'', ''awful'', ''terrible'', ''worst''] (lower ''You are wrong'') \<and>
    \<not> any_in [''shut up'', ''shut'', ''quiet''] (lower ''You are wrong'') \<and>
    any_in [''wrong'', ''disagree'', ''no''] (lower ''You are wrong'')"
    by code_simp
  have q3: "create_generic_polite_message_api ''You are wrong'' =
     ''I have a different perspective on this.''"
    by (rule mp [OF create_generic_polite_message_priority
      [of "''You are wrong''", THEN conjunct2, THEN conjunct2, THEN conjunct2, THEN conjunct2, THEN conjunct2, THEN conjunct2, THEN conjunct2, THEN conjunct2, THEN conjunct2, THEN conjunct2, THEN conjunct2, THEN conjunct2, THEN conjunct1] p3])
  have p4: "\<not> any_in [''stupid'', ''dumb'', ''idiot'', ''moron''] (lower ''That is trash'') \<and>
    \<not> any_in [''hate'', ''awful'', ''terrible'', ''worst''] (lower ''That is trash'') \<and>
    \<not> any_in [''shut up'', ''shut'', ''quiet''] (lower ''That is trash'') \<and>
    \<not> any_in [''wrong'', ''disagree'', ''no''] (lower ''That is trash'') \<and>
    any_in [''ugly'', ''bad'', ''trash''] (lower ''That is trash'')"
    by code_simp
  have q4: "create_generic_polite_message_api ''That is trash'' =
     ''I don't think this meets our standards.''"
    by (rule mp [OF create_generic_polite_message_priority
      [of "''That is trash''", THEN conjunct2, THEN conjunct2, THEN conjunct2, THEN conjunct2, THEN conjunct2, THEN conjunct2, THEN conjunct2, THEN conjunct2, THEN conjunct2, THEN conjunct2, THEN conjunct2, THEN conjunct2, THEN conjunct2, THEN conjunct1] p4])
  have p5: "\<not> any_in [''stupid'', ''idiot'', ''dumb'', ''moron''] (lower ''I hate it!'') \<and>
    any_in [''hate'', ''disgusting'', ''terrible''] (lower ''I hate it!'')"
    by code_simp
  have q5: "create_generic_polite_message ''I hate it!'' =
     ''I understand there may be strong feelings about this, but let's keep the discussion respectful.''"
    by (rule mp [OF create_generic_polite_message_priority
      [of "''I hate it!''", THEN conjunct2, THEN conjunct2, THEN conjunct2, THEN conjunct2, THEN conjunct2, THEN conjunct2, THEN conjunct2, THEN conjunct2, THEN conjunct2, THEN conjunct2, THEN conjunct2, THEN conjunct2, THEN conjunct2, THEN conjunct2, THEN conjunct1] p5])
  have p6: "\<not> any_in [''stupid'', ''idiot'', ''dumb'', ''moron''] (lower ''Please be quiet'') \<and>
    \<not> any_in [''hate'', ''disgusting'', ''terrible''] (lower ''Please be quiet'') \<and>
    any_in [''shut up'', ''quiet'', ''be silent''] (lower ''Please be quiet'')"
    by code_simp
  have q6: "create_generic_polite_message ''Please be quiet'' =
     ''I'd prefer if we could have a constructive conversation.''"
    by (rule mp [OF create_generic_polite_message_priority
      [of "''Please be quiet''", THEN conjunct2, THEN conjunct2, THEN conjunct2, THEN conjunct2, THEN conjunct2, THEN conjunct2, THEN conjunct2, THEN conjunct2, THEN conjunct2, THEN conjunct2, THEN conjunct2, THEN conjunct2, THEN conjunct2, THEN conjunct2, THEN conjunct2, THEN conjunct1] p6])
  have p7: "\<not> any_in [''stupid'', ''idiot'', ''dumb'', ''moron''] (lower ''That is gross'') \<and>
    \<not> any_in [''hate'', ''disgusting'', ''terrible''] (lower ''That is gross'') \<and>
    \<not> any_in [''shut up'', ''quiet'', ''be silent''] (lower ''That is gross'') \<and>
    any_in [''ugly'', ''gross'', ''hideous''] (lower ''That is gross'')"
    by code_simp
  have q7: "create_generic_polite_message ''That is gross'' =
     ''I don't think that kind of comment is helpful here.''"
    by (rule mp [OF create_generic_polite_message_priority
      [of "''That is gross''", THEN conjunct2, THEN conjunct2, THEN conjunct2, THEN conjunct2, THEN conjunct2, THEN conjunct2, THEN conjunct2, THEN conjunct2, THEN conjunct2, THEN conjunct2, THEN conjunct2, THEN conjunct2, THEN conjunct2, THEN conjunct2, THEN conjunct2, THEN conjunct2, THEN conjunct1] p7])
  have p8: "\<not> any_in [''stupid'', ''idiot'', ''dumb'', ''moron''] (lower ''What a failure'') \<and>
    \<not> any_in [''hate'', ''disgusting'', ''terrible''] (lower ''What a failure'') \<and>
    \<not> any_in [''shut up'', ''quiet'', ''be silent''] (lower ''What a failure'') \<and>
    \<not> any_in [''ugly'', ''gross'', ''hideous''] (lower ''What a failure'') \<and>
    any_in [''loser'', ''failure'', ''worthless''] (lower ''What a failure'')"
    by code_simp
  have q8: "create_generic_polite_message ''What a failure'' =
     ''Everyone has value and deserves to be treated with respect.''"
    by (rule mp [OF create_generic_polite_message_priority
      [of "''What a failure''", THEN conjunct2, THEN conjunct2, THEN conjunct2, THEN conjunct2, THEN conjunct2, THEN conjunct2, THEN conjunct2, THEN conjunct2, THEN conjunct2, THEN conjunct2, THEN conjunct2, THEN conjunct2, THEN conjunct2, THEN conjunct2, THEN conjunct2, THEN conjunct2, THEN conjunct2, THEN conjunct1] p8])
  from q0 q1 q2 q3 q4 q5 q6 q7 q8 show ?thesis
    by (intro conjI) (simp_all only:)
qed

subsection \<open>The rewrite chain\<close>

text \<open>
  Claim C2. The fallback message is returned without being validated. When both services
  fail (with or without a configured remote client) and the text is itself the generic
  fallback message, \<open>rephrase_logic\<close> returns the text unchanged, which the validator
  rejects as identical to the original.
\<close>

theorem rephrase_logic_returns_rejected_fallback:
  "rephrase_logic \<lparr>groq_client = None, paraphrase_pipeline = (\<lambda>prompt. None)\<rparr>
     ''I'd like to express this in a more constructive way.'' =
     ''I'd like to express this in a more constructive way.'' \<and>
   \<not> is_valid_rephrasing ''I'd like to express this in a more constructive way.''
     (rephrase_logic \<lparr>groq_client = None, paraphrase_pipeline = (\<lambda>prompt. None)\<rparr>
        ''I'd like to express this in a more constructive way.'') \<and>
   \<not> is_valid_rephrasing ''I'd like to express this in a more constructive way.''
     (rephrase_logic
        \<lparr>groq_client = Some (\<lambda>prompt. None), paraphrase_pipeline = (\<lambda>prompt. None)\<rparr>
        ''I'd like to express this in a more constructive way.'')"
  by code_simp

lemma fallback_messages_pass:
  "5 \<le> length ''I respectfully disagree with that perspective.'' \<and>
   \<not> any_in refusal_patterns (lower ''I respectfully disagree with that perspective.'')"
  "5 \<le> length ''I understand there may be strong feelings about this, but let's keep the discussion respectful.'' \<and>
   \<not> any_in refusal_patterns (lower ''I understand there may be strong feelings about this, but let's keep the discussion respectful.'')"
  "5 \<le> length ''I'd prefer if we could have a constructive conversation.'' \<and>
   \<not> any_in refusal_patterns (lower ''I'd prefer if we could have a constructive conversation.'')"
  "5 \<le> length ''I don't think that kind of comment is helpful here.'' \<and>
   \<not> any_in refusal_patterns (lower ''I don't think that kind of comment is helpful here.'')"
  "5 \<le> length ''Everyone has value and deserves to be treated with respect.'' \<and>
   \<not> any_in refusal_patterns (lower ''Everyone has value and deserves to be treated with respect.'')"
  "5 \<le> length ''I'd like to express this in a more constructive way.'' \<and>
   \<not> any_in refusal_patterns (lower ''I'd like to express this in a more constructive way.'')"
  by code_simp+

lemma create_generic_polite_message_passes:
  "5 \<le> length (create_generic_polite_message t) \<and>
   \<not> any_in refusal_patterns (lower (create_generic_polite_message t))"
proof -
  have "create_generic_polite_message t \<in>
      {''I respectfully disagree with that perspective.'',
       ''I understand there may be strong feelings about this, but let's keep the discussion respectful.'',
       ''I'd prefer if we could have a constructive conversation.'',
       ''I don't think that kind of comment is helpful here.'',
       ''Everyone has value and deserves to be treated with respect.'',
       ''I'd like to express this in a more constructive way.''}"
    by (simp add: create_generic_polite_message_def Let_def)
  then show ?thesis
    by (elim insertE emptyE) (simp_all only: fallback_messages_pass simp_thms)
qed

lemma is_valid_rephrasing_iff:
  "is_valid_rephrasing original rephrased \<longleftrightarrow>
     5 \<le> length rephrased \<and> \<not> any_in refusal_patterns (lower rephrased) \<and>
     lower (strip original) \<noteq> lower (strip rephrased)"
  by (auto simp: is_valid_rephrasing_def)

lemma rephrase_logic_cases:
  "is_valid_rephrasing t (rephrase_logic env t) \<or>
   rephrase_logic env t = create_generic_polite_message t"
  by (auto simp: rephrase_logic_def rephrase_with_groq_def local_paraphrase_def Let_def
      split: option.splits if_splits)

text \<open>
  Claim C2, amended. For every text and every behaviour of the two services,
  \<open>rephrase_logic\<close> returns a non-empty string of at least 5 characters that contains no
  refusal marker, and the result passes the validator unless it is the fallback message
  and the text is, case-insensitively and up to surrounding whitespace, that message.
\<close>

theorem rephrase_logic_total:
  "rephrase_logic env t \<noteq> [] \<and>
   5 \<le> length (rephrase_logic env t) \<and>
   \<not> any_in refusal_patterns (lower (rephrase_logic env t)) \<and>
   (is_valid_rephrasing t (rephrase_logic env t) \<or>
    rephrase_logic env t = create_generic_polite_message t \<and>
    lower (strip t) = lower (strip (create_generic_polite_message t)))"
proof -
  have pass: "5 \<le> length (rephrase_logic env t) \<and>
      \<not> any_in refusal_patterns (lower (rephrase_logic env t))"
    using rephrase_logic_cases [of t env] create_generic_polite_message_passes [of t]
    by (auto simp: is_valid_rephrasing_iff)
  then have ne: "rephrase_logic env t \<noteq> []" by auto
  have "is_valid_rephrasing t (rephrase_logic env t) \<or>
    rephrase_logic env t = create_generic_polite_message t \<and>
    lower (strip t) = lower (strip (create_generic_polite_message t))"
    using rephrase_logic_cases [of t env] pass
    by (auto simp: is_valid_rephrasing_iff)
  with pass ne show ?thesis by blast
qed

theorem rephrase_logic_total_witness:
  "rephrase_logic
     \<lparr>groq_client = Some (\<lambda>prompt. Some ''Rephrased: I see this differently.''),
      paraphrase_pipeline = (\<lambda>prompt. None)\<rparr> ''You are so stupid'' =
     ''I see this differently.'' \<and>
   is_valid_rephrasing ''You are so stupid'' ''I see this differently.'' \<and>
   5 \<le> length (rephrase_logic
     \<lparr>groq_client = Some (\<lambda>prompt. None), paraphrase_pipeline = (\<lambda>prompt. None)\<rparr>
     ''You are so stupid'')"
proof -
  have r: "rephrase_logic
     \<lparr>groq_client = Some (\<lambda>prompt. Some ''Rephrased: I see this differently.''),
      paraphrase_pipeline = (\<lambda>prompt. None)\<rparr> ''You are so stupid'' =
     ''I see this differently.''"
    by code_simp
  have d: "''I see this differently.'' \<noteq> create_generic_polite_message ''You are so stupid''"
    by code_simp
  from r d
    rephrase_logic_total [of
      "\<lparr>groq_client = Some (\<lambda>prompt. Some ''Rephrased: I see this differently.''),
        paraphrase_pipeline = (\<lambda>prompt. None)\<rparr>" "''You are so stupid''"]
    rephrase_logic_total [of
      "\<lparr>groq_client = Some (\<lambda>prompt. None), paraphrase_pipeline = (\<lambda>prompt. None)\<rparr>"
      "''You are so stupid''"]
  show ?thesis by (simp only: simp_thms)
qed

subsection \<open>The moderation decision\<close>

lemma round_half_even_bounds:
  "\<bar>of_int (round_half_even x) - x\<bar> \<le> 1 / 2"
proof -
  define f where "f = \<lfloor>x\<rfloor>"
  have a: "of_int f \<le> x" "x < of_int f + 1"
    unfolding f_def by linarith+
  show ?thesis
    unfolding round_half_even_def Let_def f_def [symmetric] using a by (auto simp: abs_if)
qed

lemma round3_close: "\<bar>round3 x - x\<bar> \<le> 0.0005"
proof -
  have "\<bar>of_int (round_half_even (x * 1000)) - x * 1000\<bar> \<le> 1 / 2"
    by (rule round_half_even_bounds)
  then show ?thesis unfolding round3_def by (simp add: abs_if field_simps split: if_splits)
qed



lemma websocket_chat_message_decision:
  assumes "predict t = Inr d" "get_toxicity d = Inr v"
  shows "\<exists>r. websocket_chat_message predict env u t = Inr r \<and>
           chat_allowed r = (v \<le> 0.5) \<and> chat_toxicity r = round3 v"
  using assms by (simp add: websocket_chat_message_def Let_def TOXICITY_THRESHOLD_def)

lemma websocket_moderator_message_decision:
  assumes "predict t = Inr d" "get_toxicity d = Inr v"
  shows "\<exists>r. websocket_moderator_message predict env t = Inr r \<and>
           moderated r = (0.5 \<le> v) \<and> mod_toxicity r = round3 v"
  using assms by (simp add: websocket_moderator_message_def Let_def TOXICITY_THRESHOLD_def)

text \<open>
  Claim C1. At a score of exactly 0.5 the three entry points of \<open>main.py\<close> disagree:
  \<open>/moderate\<close> and the chat socket allow the message (the test is \<open>score <= 0.5\<close>), the
  moderator socket marks it as moderated (the test is \<open>score >= 0.5\<close>) and replaces its
  text, here by the fallback message since both rewriting services fail.
\<close>

theorem moderator_view_moderates_at_threshold:
  "moderate_text (\<lambda>t. Inr [''toxicity'' \<mapsto> PyFloat 0.5])
     \<lparr>groq_client = None, paraphrase_pipeline = (\<lambda>prompt. None)\<rparr> ''hello'' =
     Inr (Accepted 0.5 ''hello'') \<and>
   websocket_chat_message (\<lambda>t. Inr [''toxicity'' \<mapsto> PyFloat 0.5])
     \<lparr>groq_client = None, paraphrase_pipeline = (\<lambda>prompt. None)\<rparr> ''Anonymous'' ''hello'' =
     Inr \<lparr>chat_username = ''Anonymous'', chat_original_text = ''hello'',
          chat_toxicity = 0.5, chat_allowed = True, chat_display_text = ''hello'',
          chat_original_displayed = None\<rparr> \<and>
   websocket_moderator_message (\<lambda>t. Inr [''toxicity'' \<mapsto> PyFloat 0.5])
     \<lparr>groq_client = None, paraphrase_pipeline = (\<lambda>prompt. None)\<rparr> ''hello'' =
     Inr \<lparr>mod_original = ''hello'',
          mod_final = ''I'd like to express this in a more constructive way.'',
          mod_toxicity = 0.5, moderated = True\<rparr>"
  by code_simp

text \<open>
  Outside the interface of the scorer, which returns a dictionary with a float under
  \<open>toxicity\<close>: when the entry is missing, \<open>.get("toxicity", 0.0)\<close> supplies the score 0 and
  the trimmed text is allowed; when the entry is not a number, \<open>float(...)\<close> raises.
\<close>

lemma moderate_text_outside_interface:
  "(predict (strip m) = Inr d \<and> d ''toxicity'' = None \<longrightarrow>
      moderate_text predict env m = Inr (Accepted (round3 0) (strip m)) \<and>
      moderate_index predict env m = Inr (Accepted (round3 0) (strip m))) \<and>
   (predict (strip m) = Inr d \<and> d ''toxicity'' = Some PyNotNumber \<longrightarrow>
      moderate_text predict env m = Inl FloatRaised \<and>
      moderate_index predict env m = Inl FloatRaised)"
  by (simp add: moderate_text_def moderate_index_def Let_def get_toxicity_def
      TOXICITY_THRESHOLD_def)



subsection \<open>The connection manager\<close>

lemma disconnect_remove1:
  "disconnect w h = h\<lparr>active_connections := remove1 w (active_connections h)\<rparr>"
  by (simp add: disconnect_def remove1_idem)

lemma fold_disconnect:
  "fold disconnect ds h = h\<lparr>active_connections := fold remove1 ds (active_connections h)\<rparr>"
  by (induction ds arbitrary: h) (simp_all add: disconnect_remove1)

lemma send_all_eq:
  "send_all fails m cs dl disc =
     (\<lambda>c. dl c @ (if fails c then [] else replicate (count_list cs c) m),
      disc @ filter fails cs)"
proof (induction cs arbitrary: dl disc)
  case Nil
  show ?case by (simp add: fun_eq_iff)
next
  case (Cons x cs)
  show ?case
  proof (cases "fails x")
    case True
    then show ?thesis by (auto simp: Cons.IH fun_eq_iff)
  next
    case False
    then show ?thesis by (auto simp: Cons.IH fun_eq_iff)
  qed
qed

lemma fold_remove1_filter:
  "\<forall>y \<in> set ys. \<not> P y \<Longrightarrow>
     fold remove1 (filter P xs) (ys @ xs) = ys @ filter (\<lambda>x. \<not> P x) xs"
proof (induction xs arbitrary: ys)
  case Nil
  show ?case by simp
next
  case (Cons x xs)
  show ?case
  proof (cases "P x")
    case True
    with Cons.prems have "x \<notin> set ys" by blast
    then have "remove1 x (ys @ x # xs) = ys @ xs" by (simp add: remove1_append)
    with True Cons.IH [OF Cons.prems] show ?thesis by simp
  next
    case False
    with Cons.prems have "\<forall>y \<in> set (ys @ [x]). \<not> P y" by simp
    from Cons.IH [OF this] False show ?thesis by simp
  qed
qed

lemma broadcast_active:
  "active_connections (broadcast fails m h) = filter (\<lambda>c. \<not> fails c) (active_connections h)"
  using fold_remove1_filter [of "[]" fails "active_connections h"]
  by (simp add: broadcast_def send_all_eq fold_disconnect)

lemma broadcast_delivered:
  "delivered (broadcast fails m h) c =
     delivered h c @ (if fails c then [] else replicate (count_list (active_connections h) c) m)"
  by (simp add: broadcast_def send_all_eq fold_disconnect)

lemma count_list_remove1:
  "w \<in> set xs \<Longrightarrow> Suc (count_list (remove1 w xs) w) = count_list xs w"
  by (induction xs) auto

lemma distinct_count_list: "distinct xs \<Longrightarrow> c \<in> set xs \<Longrightarrow> count_list xs c = 1"
  by (induction xs) auto

text \<open>
  One call of \<open>broadcast\<close> during which no other task runs, for any registry, any message
  and any set of failing sockets: the registry afterwards is the old one without the
  entries whose delivery failed, in the old order; every socket whose delivery did not fail
  has received the message once for each of its entries (once when the registry has no
  duplicates), and a failing or unregistered socket has received nothing. With sockets
  1, 2, 3 connected and 2 failing on \<open>x\<close>, the registry becomes 1, 3, both hold exactly
  \<open>x\<close>, and 2 holds nothing, also after a later broadcast of \<open>y\<close> whatever fails then.
\<close>

lemma broadcast_sweeps_then_prunes:
  "active_connections (broadcast fails message h) =
     filter (\<lambda>c. \<not> fails c) (active_connections h) \<and>
   (\<forall>c. delivered (broadcast fails message h) c =
      delivered h c @
        (if fails c then [] else replicate (count_list (active_connections h) c) message)) \<and>
   (distinct (active_connections h) \<longrightarrow>
      (\<forall>c \<in> set (active_connections h). \<not> fails c \<longrightarrow>
         delivered (broadcast fails message h) c = delivered h c @ [message])) \<and>
   (\<forall>c. c \<notin> set (active_connections h) \<longrightarrow>
      delivered (broadcast fails message h) c = delivered h c) \<and>
   send_all fails message (active_connections h) (delivered h) [] =
     (delivered (broadcast fails message h), filter fails (active_connections h)) \<and>
   broadcast fails message h =
     fold disconnect (filter fails (active_connections h))
       (h\<lparr>delivered := delivered (broadcast fails message h)\<rparr>) \<and>
   connect True (1::nat) \<lparr>active_connections = [], delivered = (\<lambda>c. [])\<rparr> =
     Some \<lparr>active_connections = [1], delivered = (\<lambda>c. [])\<rparr> \<and>
   connect True (2::nat) \<lparr>active_connections = [1], delivered = (\<lambda>c. [])\<rparr> =
     Some \<lparr>active_connections = [1, 2], delivered = (\<lambda>c. [])\<rparr> \<and>
   connect True (3::nat) \<lparr>active_connections = [1, 2], delivered = (\<lambda>c. [])\<rparr> =
     Some \<lparr>active_connections = [1, 2, 3], delivered = (\<lambda>c. [])\<rparr> \<and>
   active_connections (broadcast (\<lambda>c. c = 2) ''x''
      \<lparr>active_connections = [1, 2, 3 :: nat], delivered = (\<lambda>c. [])\<rparr>) = [1, 3] \<and>
   delivered (broadcast (\<lambda>c. c = 2) ''x''
      \<lparr>active_connections = [1, 2, 3 :: nat], delivered = (\<lambda>c. [])\<rparr>) 1 = [''x''] \<and>
   delivered (broadcast (\<lambda>c. c = 2) ''x''
      \<lparr>active_connections = [1, 2, 3 :: nat], delivered = (\<lambda>c. [])\<rparr>) 3 = [''x''] \<and>
   delivered (broadcast (\<lambda>c. c = 2) ''x''
      \<lparr>active_connections = [1, 2, 3 :: nat], delivered = (\<lambda>c. [])\<rparr>) 2 = [] \<and>
   (\<forall>fails'. delivered (broadcast fails' ''y'' (broadcast (\<lambda>c. c = 2) ''x''
      \<lparr>active_connections = [1, 2, 3 :: nat], delivered = (\<lambda>c. [])\<rparr>)) 2 = [])"
proof -
  have a: "active_connections (broadcast fails message h) =
     filter (\<lambda>c. \<not> fails c) (active_connections h)"
    by (rule broadcast_active)
  have b: "\<forall>c. delivered (broadcast fails message h) c =
      delivered h c @
        (if fails c then [] else replicate (count_list (active_connections h) c) message)"
    by (simp add: broadcast_delivered)
  have c: "distinct (active_connections h) \<longrightarrow>
      (\<forall>c \<in> set (active_connections h). \<not> fails c \<longrightarrow>
         delivered (broadcast fails message h) c = delivered h c @ [message])"
    by (simp add: broadcast_delivered distinct_count_list)
  have d: "\<forall>c. c \<notin> set (active_connections h) \<longrightarrow>
      delivered (broadcast fails message h) c = delivered h c"
    by (simp add: broadcast_delivered)
  have e: "send_all fails message (active_connections h) (delivered h) [] =
     (delivered (broadcast fails message h), filter fails (active_connections h))"
    by (simp add: send_all_eq broadcast_delivered fun_eq_iff)
  have f: "broadcast fails message h =
     fold disconnect (filter fails (active_connections h))
       (h\<lparr>delivered := delivered (broadcast fails message h)\<rparr>)"
    by (simp add: broadcast_def send_all_eq fold_disconnect)
  have g: "connect True (1::nat) \<lparr>active_connections = [], delivered = (\<lambda>c. [])\<rparr> =
     Some \<lparr>active_connections = [1], delivered = (\<lambda>c. [])\<rparr>"
    "connect True (2::nat) \<lparr>active_connections = [1], delivered = (\<lambda>c. [])\<rparr> =
     Some \<lparr>active_connections = [1, 2], delivered = (\<lambda>c. [])\<rparr>"
    "connect True (3::nat) \<lparr>active_connections = [1, 2], delivered = (\<lambda>c. [])\<rparr> =
     Some \<lparr>active_connections = [1, 2, 3], delivered = (\<lambda>c. [])\<rparr>"
    by (simp_all add: connect_def)
  have i: "active_connections (broadcast (\<lambda>c. c = 2) ''x''
      \<lparr>active_connections = [1, 2, 3 :: nat], delivered = (\<lambda>c. [])\<rparr>) = [1, 3]"
    "delivered (broadcast (\<lambda>c. c = 2) ''x''
      \<lparr>active_connections = [1, 2, 3 :: nat], delivered = (\<lambda>c. [])\<rparr>) 1 = [''x'']"
    "delivered (broadcast (\<lambda>c. c = 2) ''x''
      \<lparr>active_connections = [1, 2, 3 :: nat], delivered = (\<lambda>c. [])\<rparr>) 3 = [''x'']"
    "delivered (broadcast (\<lambda>c. c = 2) ''x''
      \<lparr>active_connections = [1, 2, 3 :: nat], delivered = (\<lambda>c. [])\<rparr>) 2 = []"
    by (simp_all add: broadcast_active broadcast_delivered)
  have j: "\<forall>fails'. delivered (broadcast fails' ''y'' (broadcast (\<lambda>c. c = 2) ''x''
      \<lparr>active_connections = [1, 2, 3 :: nat], delivered = (\<lambda>c. [])\<rparr>)) 2 = []"
    by (simp add: broadcast_active broadcast_delivered)
  from a b c d e f g i j show ?thesis by blast
qed

lemma broadcast_sweeps_then_prunes_example:
  "distinct [10, 20, 30 :: nat] \<and>
   active_connections (broadcast (\<lambda>c. c = 10) ''hi''
     \<lparr>active_connections = [10, 20, 30 :: nat], delivered = (\<lambda>c. [''old''])\<rparr>) = [20, 30] \<and>
   delivered (broadcast (\<lambda>c. c = 10) ''hi''
     \<lparr>active_connections = [10, 20, 30 :: nat], delivered = (\<lambda>c. [''old''])\<rparr>) 20 =
     [''old'', ''hi''] \<and>
   delivered (broadcast (\<lambda>c. c = 10) ''hi''
     \<lparr>active_connections = [10, 20, 30 :: nat], delivered = (\<lambda>c. [''old''])\<rparr>) 40 =
     [''old'']"
  using broadcast_sweeps_then_prunes [of "\<lambda>c. c = 10" "''hi''"
      "\<lparr>active_connections = [10, 20, 30 :: nat], delivered = (\<lambda>c. [''old''])\<rparr>"]
  by simp

lemma sweep_alone:
  "sweep fails m [] i h d =
     (h\<lparr>delivered := fst (send_all fails m (drop i (active_connections h)) (delivered h) d)\<rparr>,
      snd (send_all fails m (drop i (active_connections h)) (delivered h) d))"
proof (induction "length (active_connections h) - i" arbitrary: i h d)
  case 0
  then show ?case by (simp add: sweep.simps [of fails m "[]" i h d])
next
  case (Suc n)
  then have lt: "i < length (active_connections h)" by simp
  then have dr: "drop i (active_connections h) =
      active_connections h ! i # drop (Suc i) (active_connections h)"
    by (simp add: Cons_nth_drop_Suc)
  show ?case
  proof (cases "fails (active_connections h ! i)")
    case True
    with Suc.hyps(2) have "n = length (active_connections h) - Suc i" by simp
    from Suc.hyps(1) [OF this] True lt show ?thesis
      by (simp add: sweep.simps [of fails m "[]" i h d] dr Let_def)
  next
    case False
    let ?h1 = "h\<lparr>delivered := (delivered h)
      (active_connections h ! i := delivered h (active_connections h ! i) @ [m])\<rparr>"
    from Suc.hyps(2) have "n = length (active_connections ?h1) - Suc i" by simp
    from Suc.hyps(1) [OF this] False lt show ?thesis
      by (simp add: sweep.simps [of fails m "[]" i h d] dr Let_def)
  qed
qed

text \<open>When no other task runs during the call, the call among tasks is the call alone.\<close>

lemma broadcast_among_tasks_alone:
  "broadcast_among_tasks fails m [] h = broadcast fails m h"
  by (simp add: broadcast_among_tasks_def broadcast_def sweep_alone split_beta)

text \<open>
  Claim C3. With sockets 1, 2, 3 registered and every delivery succeeding, a broadcast
  of \<open>x\<close> during which no other task runs delivers \<open>x\<close> to all three. When socket 1 is
  disconnected by its own handler while the broadcast awaits the first \<open>send_text\<close>, the
  registry shrinks to 2, 3 under the running loop, whose index then points at socket 3:
  socket 2, registered from before the sweep until after it and never failing, is skipped
  and receives nothing.
\<close>

theorem broadcast_skips_subscriber:
  "delivered (broadcast_among_tasks (\<lambda>c. False) ''x'' []
      \<lparr>active_connections = [1, 2, 3 :: nat], delivered = (\<lambda>c. [])\<rparr>) 2 = [''x''] \<and>
   active_connections (broadcast_among_tasks (\<lambda>c. False) ''x'' [[Disconnects 1]]
      \<lparr>active_connections = [1, 2, 3 :: nat], delivered = (\<lambda>c. [])\<rparr>) = [2, 3] \<and>
   delivered (broadcast_among_tasks (\<lambda>c. False) ''x'' [[Disconnects 1]]
      \<lparr>active_connections = [1, 2, 3 :: nat], delivered = (\<lambda>c. [])\<rparr>) 1 = [''x''] \<and>
   delivered (broadcast_among_tasks (\<lambda>c. False) ''x'' [[Disconnects 1]]
      \<lparr>active_connections = [1, 2, 3 :: nat], delivered = (\<lambda>c. [])\<rparr>) 2 = [] \<and>
   delivered (broadcast_among_tasks (\<lambda>c. False) ''x'' [[Disconnects 1]]
      \<lparr>active_connections = [1, 2, 3 :: nat], delivered = (\<lambda>c. [])\<rparr>) 3 = [''x'']"
  by code_simp


text \<open>
  Claim C10. \<open>connect\<close> appends without looking at the registry: when \<open>accept\<close> returns
  both times, connecting a socket twice adds two entries for it. A broadcast on which the
  socket does not fail then delivers the message once per entry, so at least twice, and one
  \<open>disconnect\<close> removes one entry and leaves the socket registered. From the empty
  registry: connecting socket 1 twice gives the registry 1, 1; a broadcast of \<open>x\<close> delivers
  \<open>x\<close> twice; one \<open>disconnect\<close> leaves the registry 1.
\<close>

theorem connect_not_idempotent:
  "connect True w h = Some (h\<lparr>active_connections := active_connections h @ [w]\<rparr>) \<and>
   Option.bind (connect True w h) (connect True w) =
     Some (h\<lparr>active_connections := active_connections h @ [w, w]\<rparr>) \<and>
   count_list (active_connections h @ [w, w]) w = count_list (active_connections h) w + 2 \<and>
   (\<not> fails w \<longrightarrow>
      delivered (broadcast fails message
          (h\<lparr>active_connections := active_connections h @ [w, w]\<rparr>)) w =
        delivered h w @ replicate (count_list (active_connections h) w + 2) message) \<and>
   count_list (active_connections
       (disconnect w (h\<lparr>active_connections := active_connections h @ [w, w]\<rparr>))) w =
     count_list (active_connections h) w + 1 \<and>
   w \<in> set (active_connections
       (disconnect w (h\<lparr>active_connections := active_connections h @ [w, w]\<rparr>))) \<and>
   Option.bind (connect True (1::nat) \<lparr>active_connections = [], delivered = (\<lambda>c. [])\<rparr>)
       (connect True 1) =
     Some \<lparr>active_connections = [1, 1], delivered = (\<lambda>c. [])\<rparr> \<and>
   delivered (broadcast (\<lambda>c. False) ''x''
       \<lparr>active_connections = [1, 1 :: nat], delivered = (\<lambda>c. [])\<rparr>) 1 = [''x'', ''x''] \<and>
   active_connections
       (disconnect 1 \<lparr>active_connections = [1, 1 :: nat], delivered = (\<lambda>c. [])\<rparr>) = [1]"
proof -
  let ?h2 = "h\<lparr>active_connections := active_connections h @ [w, w]\<rparr>"
  have a: "connect True w h = Some (h\<lparr>active_connections := active_connections h @ [w]\<rparr>)"
    by (simp add: connect_def)
  have b: "Option.bind (connect True w h) (connect True w) = Some ?h2"
    by (simp add: connect_def)
  have c: "count_list (active_connections h @ [w, w]) w =
      count_list (active_connections h) w + 2"
    by simp
  have d: "\<not> fails w \<longrightarrow> delivered (broadcast fails message ?h2) w =
      delivered h w @ replicate (count_list (active_connections h) w + 2) message"
    by (simp add: broadcast_delivered)
  have "w \<in> set (active_connections ?h2)" by simp
  from count_list_remove1 [OF this]
  have e: "count_list (active_connections (disconnect w ?h2)) w =
      count_list (active_connections h) w + 1"
    by (simp add: disconnect_remove1)
  then have f: "w \<in> set (active_connections (disconnect w ?h2))"
    using count_notin [of w "active_connections (disconnect w ?h2)"] by force
  have g: "Option.bind (connect True (1::nat) \<lparr>active_connections = [], delivered = (\<lambda>c. [])\<rparr>)
       (connect True 1) =
     Some \<lparr>active_connections = [1, 1], delivered = (\<lambda>c. [])\<rparr>"
    "delivered (broadcast (\<lambda>c. False) ''x''
       \<lparr>active_connections = [1, 1 :: nat], delivered = (\<lambda>c. [])\<rparr>) 1 = [''x'', ''x'']"
    "active_connections
       (disconnect 1 \<lparr>active_connections = [1, 1 :: nat], delivered = (\<lambda>c. [])\<rparr>) = [1]"
    by (simp_all add: connect_def broadcast_delivered disconnect_remove1)
  from a b c d e f g show ?thesis by blast
qed

theorem connect_not_idempotent_witness:
  "\<not> (\<lambda>c. c = (2::nat)) 7 \<and>
   delivered (broadcast (\<lambda>c. c = (2::nat)) ''hi''
     (\<lparr>active_connections = [7, 2], delivered = (\<lambda>c. [])\<rparr>
        \<lparr>active_connections := [7, 2] @ [7, 7]\<rparr>)) 7 = [''hi'', ''hi'', ''hi'']"
  using connect_not_idempotent [of 7 "\<lparr>active_connections = [7, 2 :: nat], delivered = (\<lambda>c. [])\<rparr>"
      "\<lambda>c. c = 2" "''hi''"]
  by (simp add: numeral_3_eq_3)

subsection \<open>The normaliser\<close>




lemma strip_plain:
  assumes "s \<noteq> []" "\<not> isspace (hd s)" "\<not> isspace (last s)"
  shows "strip s = s"
proof -
  from assms have "dropWhile isspace s = s"
    by (simp add: dropWhile_eq_self_iff)
  moreover from assms have "dropWhile isspace (rev s) = rev s"
    by (simp add: dropWhile_eq_self_iff hd_rev)
  ultimately show ?thesis by (simp add: strip_def)
qed

lemma lower_literals:
  "lower ''Rephrased: '' = ''rephrased: ''"
  "lower ''Here's a polite version:'' = ''here's a polite version:''"
  "lower ''Rewritten text:'' = ''rewritten text:''"
  "lower ''Polite version:'' = ''polite version:''"
  "lower ''Here is the rewritten text:'' = ''here is the rewritten text:''"
  "lower ''The rewritten message is:'' = ''the rewritten message is:''"
  "lower ''POLITE VERSION:'' = ''polite version:''"
  "lower ''Rephrased:'' = ''rephrased:''"
  "lower ''Here's the polite version:'' = ''here's the polite version:''"
  "lower ''Rewritten:'' = ''rewritten:''"
  "lower ''Polite:'' = ''polite:''"
  "lower ''Here is a polite version:'' = ''here is a polite version:''"
  "lower ''Here is the polite version:'' = ''here is the polite version:''"
  "lower_char (CHR 0x22) = CHR 0x22"
  by code_simp+


lemma space_facts:
  "isspace CHR '' ''" "isspace (CHR 0x0A)" "\<not> isspace (CHR 0x22)" "\<not> isspace CHR ''R''"
  by (simp_all add: isspace_def)


lemma clean_rephrased_text_quoted_prefix:
  assumes ne: "b \<noteq> []" and last_space: "\<not> isspace (last b)"
  shows "clean_rephrased_text ([CHR 0x22] @ ''Rephrased: '' @ b @ [CHR 0x22]) =
           ''Rephrased: '' @ b"
proof -
  define P where "P = ''Rephrased: ''"
  define T where "T = P @ b @ [CHR 0x22]"
  have P_ne: "P \<noteq> []" and P_hd: "hd P = CHR ''R''"
    by (simp_all add: P_def)
  have s1: "strip (CHR 0x22 # T) = CHR 0x22 # T"
    by (rule strip_plain) (simp_all add: space_facts T_def)
  have lw: "lower (CHR 0x22 # T) = CHR 0x22 # lower T"
    by (simp add: lower_def lower_literals)
  have s2: "fold remove_prefix prefixes_to_remove (CHR 0x22 # T) = CHR 0x22 # T"
    by (simp add: prefixes_to_remove_def remove_prefix_def lw lower_literals)
  have q: "startswith (CHR 0x22 # T) [CHR 0x22]" "endswith (CHR 0x22 # T) [CHR 0x22]"
    by (simp_all add: endswith_def T_def)
  have bl: "butlast T = P @ b"
    by (simp add: T_def butlast_append)
  have s3: "strip (P @ b) = P @ b"
    using P_ne P_hd ne last_space by (intro strip_plain) (simp_all add: space_facts)
  show ?thesis
    using q unfolding clean_rephrased_text_def Let_def
    by (simp add: P_def [symmetric] T_def [symmetric] s1 s2 bl s3 del: startswith.simps)
qed






















end
